theory Spec2Isabelle
  imports Main "HOL-Library.Word" "HOL-Library.Log_Nat"
begin

section \<open>Binary floating point\<close>

text \<open>
  The features of \<^verbatim>\<open>MLFeatures.hpp\<close> compute in the C++ type \<^verbatim>\<open>float\<close>. The model
  below is IEEE 754 binary floating point with round-to-nearest, ties-to-even, written
  over integers so that every operation can be evaluated. A finite number is a sign, an
  integer significand and an exponent: \<open>Fin s m e\<close> stands for \<open>(-1)^s * m * 2^e\<close>. A
  format gives the number of significand bits and the least and greatest exponent of an
  integer significand. NaN payloads are not modelled: there is one NaN.
\<close>

record format =
  prec :: nat
  emin :: int
  emax :: int

definition binary32 :: format where
  "binary32 = \<lparr>prec = 24, emin = - 149, emax = 104\<rparr>"

definition binary64 :: format where
  "binary64 = \<lparr>prec = 53, emin = - 1074, emax = 971\<rparr>"

datatype fp = Fin bool nat int | Inf bool | NaN

text \<open>The number of bits of a natural number: 0 for 0, and \<open>k\<close> for a number in
  \<open>[2 ^ (k - 1), 2 ^ k)\<close>.\<close>

fun bitlength :: "nat \<Rightarrow> nat" where
  "bitlength n = (if n = 0 then 0 else Suc (bitlength (n div 2)))"

text \<open>The same number read off a binary numeral, for evaluation.\<close>

fun bitlen_num :: "num \<Rightarrow> nat" where
  "bitlen_num num.One = 1"
| "bitlen_num (num.Bit0 n) = Suc (bitlen_num n)"
| "bitlen_num (num.Bit1 n) = Suc (bitlen_num n)"

text \<open>What the facts below need of a format; \<open>binary32\<close> and \<open>binary64\<close> have it.\<close>

definition wf_format :: "format \<Rightarrow> bool" where
  "wf_format f \<longleftrightarrow> 0 < prec f \<and> emin f \<le> 0 \<and> 2 \<le> emax f"

text \<open>
  A finite value of a format is canonical when its significand has exactly \<open>prec\<close> bits
  (a normal number), or fewer at the least exponent (a subnormal number or zero).
\<close>

definition canonical :: "format \<Rightarrow> nat \<Rightarrow> int \<Rightarrow> bool" where
  "canonical f m e \<longleftrightarrow>
     m < 2 ^ prec f \<and> emin f \<le> e \<and> e \<le> emax f \<and> (e = emin f \<or> 2 ^ (prec f - 1) \<le> m)"

fun is_format :: "format \<Rightarrow> fp \<Rightarrow> bool" where
  "is_format f (Fin s m e) = canonical f m e"
| "is_format f (Inf s) = True"
| "is_format f NaN = True"

fun is_finite :: "fp \<Rightarrow> bool" where
  "is_finite (Fin s m e) = True"
| "is_finite (Inf s) = False"
| "is_finite NaN = False"

fun sign :: "fp \<Rightarrow> bool" where
  "sign (Fin s m e) = s"
| "sign (Inf s) = s"
| "sign NaN = False"

text \<open>
  \<open>finish\<close> packs a rounded significand: a carry out of the top bit moves to the next
  exponent, and a result beyond the greatest exponent overflows to infinity.
\<close>

definition finish :: "format \<Rightarrow> bool \<Rightarrow> nat \<Rightarrow> int \<Rightarrow> fp" where
  "finish f s m e =
     (if m = 2 ^ prec f
      then (if emax f < e + 1 then Inf s else Fin s (2 ^ (prec f - 1)) (e + 1))
      else if emax f < e then Inf s else Fin s m e)"

text \<open>
  \<open>rnd f s m e\<close> rounds the exact value \<open>(-1)^s * m * 2^e\<close> to the format: the target
  exponent leaves \<open>prec\<close> bits (or stops at \<open>emin\<close>), the bits below it are dropped, and
  the result goes up when they are more than half a unit, or exactly half with an odd
  quotient.
\<close>

definition rnd :: "format \<Rightarrow> bool \<Rightarrow> nat \<Rightarrow> int \<Rightarrow> fp" where
  "rnd f s m e =
     (if m = 0 then Fin s 0 (emin f)
      else let e' = max (e + int (bitlength m) - int (prec f)) (emin f) in
        if e' \<le> e then finish f s (m * 2 ^ nat (e - e')) e'
        else let k = nat (e' - e); q = m div 2 ^ k; r = m mod 2 ^ k; h = 2 ^ (k - 1) in
          finish f s (if h < r \<or> (r = h \<and> odd q) then q + 1 else q) e')"

fun fmul :: "format \<Rightarrow> fp \<Rightarrow> fp \<Rightarrow> fp" where
  "fmul f NaN y = NaN"
| "fmul f x NaN = NaN"
| "fmul f (Inf s) (Inf t) = Inf (s \<noteq> t)"
| "fmul f (Inf s) (Fin t n d) = (if n = 0 then NaN else Inf (s \<noteq> t))"
| "fmul f (Fin s m e) (Inf t) = (if m = 0 then NaN else Inf (s \<noteq> t))"
| "fmul f (Fin s m e) (Fin t n d) = rnd f (s \<noteq> t) (m * n) (e + d)"

text \<open>
  \<open>fceil\<close> is the least integer not below its argument, with the argument's sign (so
  that a value in \<open>(-1, 0)\<close> gives \<open>-0\<close>).
\<close>

fun fceil :: "format \<Rightarrow> fp \<Rightarrow> fp" where
  "fceil f (Fin s m e) =
     (if 0 \<le> e then rnd f s m e
      else let k = nat (- e); q = m div 2 ^ k; r = m mod 2 ^ k in
        rnd f s (if s \<or> r = 0 then q else q + 1) 0)"
| "fceil f (Inf s) = Inf s"
| "fceil f NaN = NaN"

text \<open>Conversion to a format, as between \<^verbatim>\<open>float\<close> and \<^verbatim>\<open>double\<close>.\<close>

fun cvt :: "format \<Rightarrow> fp \<Rightarrow> fp" where
  "cvt f (Fin s m e) = rnd f s m e"
| "cvt f (Inf s) = Inf s"
| "cvt f NaN = NaN"

text \<open>
  Division, correctly rounded: the quotient is taken with more than \<open>prec + 2\<close> bits,
  and a non-zero remainder is recorded in an extra lowest bit. The header divides
  nowhere; \<open>fdiv\<close> writes the quantities the spec names, the reciprocal \<open>1 / mt0\<close>,
  the quotient \<open>M / mt0\<close> and the constants \<open>1 / 3\<close>, \<open>0.1\<close> and \<open>0.3\<close>.
\<close>

fun fdiv :: "format \<Rightarrow> fp \<Rightarrow> fp \<Rightarrow> fp" where
  "fdiv f NaN y = NaN"
| "fdiv f x NaN = NaN"
| "fdiv f (Inf s) (Inf t) = NaN"
| "fdiv f (Inf s) (Fin t n d) = Inf (s \<noteq> t)"
| "fdiv f (Fin s m e) (Inf t) = Fin (s \<noteq> t) 0 (emin f)"
| "fdiv f (Fin s m e) (Fin t n d) =
     (if n = 0 then (if m = 0 then NaN else Inf (s \<noteq> t))
      else let sh = prec f + 2 + bitlength n; a = m * 2 ^ sh; q = a div n; r = a mod n in
        rnd f (s \<noteq> t) (2 * q + (if r = 0 then 0 else 1)) (e - d - int sh - 1))"

type_synonym size_t = "64 word"

text \<open>The conversion of an integer to \<^verbatim>\<open>float\<close>: of a literal, and of a \<^verbatim>\<open>size_t\<close> where
  it meets a \<^verbatim>\<open>float\<close> in a product or is cast.\<close>

definition float_of_nat :: "nat \<Rightarrow> fp" where
  "float_of_nat n = rnd binary32 False n 0"

definition float_of_size :: "size_t \<Rightarrow> fp" where
  "float_of_size w = float_of_nat (unat w)"

section \<open>The problem and the scale factors\<close>

text \<open>
  \<^verbatim>\<open>ContractionProblem\<close> is declared in \<^verbatim>\<open>ContractionProblem.hpp\<close>. The features use
  three of its accessors, each taking a \<^verbatim>\<open>size_t\<close> index and returning a \<^verbatim>\<open>size_t\<close>
  size. They are fields of the problem here, so that every problem class with these
  accessors is covered; an accessor that fails (an index out of range) returns \<open>Inl\<close> of
  its error. The record is extensible: the \<open>more\<close> part stands for every other
  attribute of a problem.
\<close>

record 'e ContractionProblem =
  freeSizeA :: "size_t \<Rightarrow> 'e + size_t"
  freeSizeB :: "size_t \<Rightarrow> 'e + size_t"
  boundSize :: "size_t \<Rightarrow> 'e + size_t"

text \<open>
  Modelled from the spec: a problem that holds its sizes in three lists, with accessors
  that fail with an out-of-bounds condition when the index is not below the length
  (the class itself is in \<^verbatim>\<open>ContractionProblem.hpp\<close>).
\<close>

datatype accessor_error = OutOfBounds

definition at_index :: "size_t list \<Rightarrow> size_t \<Rightarrow> accessor_error + size_t" where
  "at_index xs i = (if unat i < length xs then Inr (xs ! unat i) else Inl OutOfBounds)"

definition problem_of_sizes ::
  "size_t list \<Rightarrow> size_t list \<Rightarrow> size_t list \<Rightarrow> accessor_error ContractionProblem" where
  "problem_of_sizes as bs ks =
     \<lparr>freeSizeA = at_index as, freeSizeB = at_index bs, boundSize = at_index ks\<rparr>"

text \<open>
  \<^verbatim>\<open>ContractionSolution::GranularityScaleFactors\<close>, by the three members the features
  read.
\<close>

record GranularityScaleFactors =
  mt0_scale :: fp
  mt1_scale :: fp
  devSolScale :: fp

text \<open>
  \<^verbatim>\<open>ContractionSolution::computeGranularity\<close> is declared in
  \<^verbatim>\<open>ContractionSolution.hpp\<close>: it is a parameter \<open>computeGranularity\<close> of the features
  that call it, a function from \<^verbatim>\<open>float\<close> to \<^verbatim>\<open>float\<close>.

  The header calls \<^verbatim>\<open>ceil\<close> unqualified on a \<^verbatim>\<open>float\<close> and declares no \<^verbatim>\<open>ceil\<close> itself.
  Which function that is depends on the math header in scope: where the global
  namespace has the overload \<^verbatim>\<open>float ceil(float)\<close> the call and the products around it
  are in single precision; where it has only C's \<^verbatim>\<open>double ceil(double)\<close> the argument
  is widened, the products are in double precision, and the result is rounded when it
  is stored in a \<^verbatim>\<open>float\<close>. The overload is a parameter of the two features that call
  \<^verbatim>\<open>ceil\<close>.
\<close>

datatype ceil_overload = ceil_float | ceil_double

section \<open>The features\<close>

definition FreeSizeA_Type :: string where "FreeSizeA_Type = ''FreeSizeA''"
definition FreeSizeB_Type :: string where "FreeSizeB_Type = ''FreeSizeB''"
definition BoundSize_Type :: string where "BoundSize_Type = ''BoundSize''"
definition Tile0Granularity_Type :: string where "Tile0Granularity_Type = ''Tile0Granularity''"
definition Tile1Granularity_Type :: string where "Tile1Granularity_Type = ''Tile1Granularity''"
definition CUGranularity_Type :: string where "CUGranularity_Type = ''CUGranularity''"
definition WavesPerSIMD_Type :: string where "WavesPerSIMD_Type = ''WavesPerSIMD''"

definition FreeSizeA_eval ::
  "size_t \<Rightarrow> ('e, 'm) ContractionProblem_scheme \<Rightarrow> 'e + fp" where
  "FreeSizeA_eval index problem =
     (case freeSizeA problem index of
        Inl err \<Rightarrow> Inl err
      | Inr sz \<Rightarrow> Inr (float_of_size sz))"

definition FreeSizeB_eval ::
  "size_t \<Rightarrow> ('e, 'm) ContractionProblem_scheme \<Rightarrow> 'e + fp" where
  "FreeSizeB_eval index problem =
     (case freeSizeB problem index of
        Inl err \<Rightarrow> Inl err
      | Inr sz \<Rightarrow> Inr (float_of_size sz))"

definition BoundSize_eval ::
  "size_t \<Rightarrow> ('e, 'm) ContractionProblem_scheme \<Rightarrow> 'e + fp" where
  "BoundSize_eval index problem =
     (case boundSize problem index of
        Inl err \<Rightarrow> Inl err
      | Inr sz \<Rightarrow> Inr (float_of_size sz))"

definition Tile0Granularity_eval ::
  "(fp \<Rightarrow> fp) \<Rightarrow> fp \<Rightarrow> ('e, 'm) ContractionProblem_scheme \<Rightarrow> 'e + fp" where
  "Tile0Granularity_eval computeGranularity val problem =
     (case freeSizeA problem 0 of
        Inl err \<Rightarrow> Inl err
      | Inr sizeA \<Rightarrow>
          let numTiles = fmul binary32 (float_of_size sizeA) val
          in Inr (computeGranularity numTiles))"

definition Tile1Granularity_eval ::
  "(fp \<Rightarrow> fp) \<Rightarrow> fp \<Rightarrow> ('e, 'm) ContractionProblem_scheme \<Rightarrow> 'e + fp" where
  "Tile1Granularity_eval computeGranularity val problem =
     (case freeSizeB problem 0 of
        Inl err \<Rightarrow> Inl err
      | Inr sizeB \<Rightarrow>
          let numTiles = fmul binary32 (float_of_size sizeB) val
          in Inr (computeGranularity numTiles))"

definition NumBatches :: fp where
  "NumBatches = float_of_nat 1"

text \<open>
  The expression \<^verbatim>\<open>NumBatches * ceil(numTilesM) * ceil(numTilesN) * value.devSolScale\<close>,
  stored in the \<^verbatim>\<open>float\<close> \<^verbatim>\<open>tilesPerCu\<close>, for each overload of \<^verbatim>\<open>ceil\<close>.
\<close>

definition tilesPerCu :: "ceil_overload \<Rightarrow> fp \<Rightarrow> fp \<Rightarrow> fp \<Rightarrow> fp" where
  "tilesPerCu ovl numTilesM numTilesN scale =
     (case ovl of
        ceil_float \<Rightarrow>
          fmul binary32
            (fmul binary32 (fmul binary32 NumBatches (fceil binary32 numTilesM))
               (fceil binary32 numTilesN))
            scale
      | ceil_double \<Rightarrow>
          cvt binary32
            (fmul binary64
               (fmul binary64
                  (fmul binary64 (cvt binary64 NumBatches)
                     (fceil binary64 (cvt binary64 numTilesM)))
                  (fceil binary64 (cvt binary64 numTilesN)))
               (cvt binary64 scale)))"

definition CUGranularity_eval ::
  "ceil_overload \<Rightarrow> (fp \<Rightarrow> fp) \<Rightarrow> GranularityScaleFactors \<Rightarrow>
     ('e, 'm) ContractionProblem_scheme \<Rightarrow> 'e + fp" where
  "CUGranularity_eval ovl computeGranularity val problem =
     (case freeSizeA problem 0 of
        Inl err \<Rightarrow> Inl err
      | Inr sizeA \<Rightarrow>
          let numTilesM = fmul binary32 (float_of_size sizeA) (mt0_scale val) in
          (case freeSizeB problem 0 of
             Inl err \<Rightarrow> Inl err
           | Inr sizeB \<Rightarrow>
               let numTilesN = fmul binary32 (float_of_size sizeB) (mt1_scale val)
               in Inr (computeGranularity
                         (tilesPerCu ovl numTilesM numTilesN (devSolScale val)))))"

text \<open>
  The product \<^verbatim>\<open>ceil(numTilesM) * ceil(numTilesN)\<close>, stored in the \<^verbatim>\<open>float\<close>
  \<^verbatim>\<open>totalTiles\<close>, for each overload of \<^verbatim>\<open>ceil\<close>.
\<close>

definition totalTiles :: "ceil_overload \<Rightarrow> fp \<Rightarrow> fp \<Rightarrow> fp" where
  "totalTiles ovl numTilesM numTilesN =
     (case ovl of
        ceil_float \<Rightarrow> fmul binary32 (fceil binary32 numTilesM) (fceil binary32 numTilesN)
      | ceil_double \<Rightarrow>
          cvt binary32
            (fmul binary64 (fceil binary64 (cvt binary64 numTilesM))
               (fceil binary64 (cvt binary64 numTilesN))))"

definition WavesPerSIMD_eval ::
  "ceil_overload \<Rightarrow> GranularityScaleFactors \<Rightarrow>
     ('e, 'm) ContractionProblem_scheme \<Rightarrow> 'e + fp" where
  "WavesPerSIMD_eval ovl val problem =
     (case freeSizeA problem 0 of
        Inl err \<Rightarrow> Inl err
      | Inr sizeA \<Rightarrow>
          let numTilesM = fmul binary32 (float_of_size sizeA) (mt0_scale val) in
          (case freeSizeB problem 0 of
             Inl err \<Rightarrow> Inl err
           | Inr sizeB \<Rightarrow>
               let numTilesN = fmul binary32 (float_of_size sizeB) (mt1_scale val)
               in Inr (fmul binary32 (totalTiles ovl numTilesM numTilesN)
                         (devSolScale val))))"

text \<open>
  A configured feature of one of the seven kinds, its type name, and the virtual call
  \<^verbatim>\<open>operator()\<close> on it.
\<close>

datatype MLFeature =
    FreeSizeA size_t
  | FreeSizeB size_t
  | BoundSize size_t
  | Tile0Granularity fp
  | Tile1Granularity fp
  | CUGranularity GranularityScaleFactors
  | WavesPerSIMD GranularityScaleFactors

fun Type :: "MLFeature \<Rightarrow> string" where
  "Type (FreeSizeA index) = FreeSizeA_Type"
| "Type (FreeSizeB index) = FreeSizeB_Type"
| "Type (BoundSize index) = BoundSize_Type"
| "Type (Tile0Granularity val) = Tile0Granularity_Type"
| "Type (Tile1Granularity val) = Tile1Granularity_Type"
| "Type (CUGranularity val) = CUGranularity_Type"
| "Type (WavesPerSIMD val) = WavesPerSIMD_Type"

fun evaluate ::
  "ceil_overload \<Rightarrow> (fp \<Rightarrow> fp) \<Rightarrow> MLFeature \<Rightarrow>
     ('e, 'm) ContractionProblem_scheme \<Rightarrow> 'e + fp" where
  "evaluate ovl computeGranularity (FreeSizeA index) problem = FreeSizeA_eval index problem"
| "evaluate ovl computeGranularity (FreeSizeB index) problem = FreeSizeB_eval index problem"
| "evaluate ovl computeGranularity (BoundSize index) problem = BoundSize_eval index problem"
| "evaluate ovl computeGranularity (Tile0Granularity val) problem =
     Tile0Granularity_eval computeGranularity val problem"
| "evaluate ovl computeGranularity (Tile1Granularity val) problem =
     Tile1Granularity_eval computeGranularity val problem"
| "evaluate ovl computeGranularity (CUGranularity val) problem =
     CUGranularity_eval ovl computeGranularity val problem"
| "evaluate ovl computeGranularity (WavesPerSIMD val) problem =
     WavesPerSIMD_eval ovl val problem"

text \<open>
  The same seven bodies once more, statement by statement, as member functions on
  explicit state. The state is the pair of the objects a call can reach: the feature
  object, given by its one data member (\<^verbatim>\<open>index\<close> or \<^verbatim>\<open>value\<close>), and the problem. A member
  function returns its result, or the error of a failed accessor, together with the state
  it leaves behind. \<open>read_member\<close> reads a data member of the feature. \<open>call_accessor\<close>
  calls an accessor of the problem, a \<^verbatim>\<open>const\<close> member function of
  \<^verbatim>\<open>ContractionProblem.hpp\<close> that is taken to return its size without changing the
  problem. \<open>write_member\<close> is an assignment to the data member; no body of the header
  has one. \<open>bnd\<close> runs one step after another and stops at the first error, and \<open>ret\<close>
  is \<^verbatim>\<open>return\<close>. \<^verbatim>\<open>computeGranularity\<close> is a static function that gets a \<^verbatim>\<open>float\<close> by value
  and is taken to be a function of it.
\<close>

type_synonym ('t, 'p, 'e, 'a) member_function = "'t \<times> 'p \<Rightarrow> ('e + 'a) \<times> 't \<times> 'p"

definition ret :: "'a \<Rightarrow> ('t, 'p, 'e, 'a) member_function" where
  "ret a st = (Inr a, st)"

definition bnd ::
  "('t, 'p, 'e, 'a) member_function \<Rightarrow> ('a \<Rightarrow> ('t, 'p, 'e, 'b) member_function) \<Rightarrow> ('t, 'p, 'e, 'b) member_function" where
  "bnd m k st = (case m st of (Inl err, st') \<Rightarrow> (Inl err, st') | (Inr a, st') \<Rightarrow> k a st')"

definition read_member :: "('t \<Rightarrow> 'a) \<Rightarrow> ('t, 'p, 'e, 'a) member_function" where
  "read_member field st = (Inr (field (fst st)), st)"

definition write_member :: "'t \<Rightarrow> ('t, 'p, 'e, unit) member_function" where
  "write_member v st = (Inr (), v, snd st)"

definition call_accessor ::
  "('p \<Rightarrow> size_t \<Rightarrow> 'e + size_t) \<Rightarrow> size_t \<Rightarrow> ('t, 'p, 'e, size_t) member_function" where
  "call_accessor get i st = (get (snd st) i, st)"

definition FreeSizeA_call :: "(size_t, ('e, 'm) ContractionProblem_scheme, 'e, fp) member_function" where
  "FreeSizeA_call =
     bnd (read_member (\<lambda>index. index)) (\<lambda>index.
     bnd (call_accessor freeSizeA index) (\<lambda>sz.
     ret (float_of_size sz)))"

definition FreeSizeB_call :: "(size_t, ('e, 'm) ContractionProblem_scheme, 'e, fp) member_function" where
  "FreeSizeB_call =
     bnd (read_member (\<lambda>index. index)) (\<lambda>index.
     bnd (call_accessor freeSizeB index) (\<lambda>sz.
     ret (float_of_size sz)))"

definition BoundSize_call :: "(size_t, ('e, 'm) ContractionProblem_scheme, 'e, fp) member_function" where
  "BoundSize_call =
     bnd (read_member (\<lambda>index. index)) (\<lambda>index.
     bnd (call_accessor boundSize index) (\<lambda>sz.
     ret (float_of_size sz)))"

definition Tile0Granularity_call ::
  "(fp \<Rightarrow> fp) \<Rightarrow> (fp, ('e, 'm) ContractionProblem_scheme, 'e, fp) member_function" where
  "Tile0Granularity_call computeGranularity =
     bnd (call_accessor freeSizeA 0) (\<lambda>sizeA.
     bnd (read_member (\<lambda>val. val)) (\<lambda>val.
     let numTiles = fmul binary32 (float_of_size sizeA) val in
     ret (computeGranularity numTiles)))"

definition Tile1Granularity_call ::
  "(fp \<Rightarrow> fp) \<Rightarrow> (fp, ('e, 'm) ContractionProblem_scheme, 'e, fp) member_function" where
  "Tile1Granularity_call computeGranularity =
     bnd (call_accessor freeSizeB 0) (\<lambda>sizeB.
     bnd (read_member (\<lambda>val. val)) (\<lambda>val.
     let numTiles = fmul binary32 (float_of_size sizeB) val in
     ret (computeGranularity numTiles)))"

definition CUGranularity_call ::
  "ceil_overload \<Rightarrow> (fp \<Rightarrow> fp) \<Rightarrow>
     (GranularityScaleFactors, ('e, 'm) ContractionProblem_scheme, 'e, fp) member_function" where
  "CUGranularity_call ovl computeGranularity =
     bnd (call_accessor freeSizeA 0) (\<lambda>sizeA.
     bnd (read_member mt0_scale) (\<lambda>scale0.
     let numTilesM = fmul binary32 (float_of_size sizeA) scale0 in
     bnd (call_accessor freeSizeB 0) (\<lambda>sizeB.
     bnd (read_member mt1_scale) (\<lambda>scale1.
     let numTilesN = fmul binary32 (float_of_size sizeB) scale1 in
     bnd (read_member devSolScale) (\<lambda>scale.
     ret (computeGranularity (tilesPerCu ovl numTilesM numTilesN scale)))))))"

definition WavesPerSIMD_call ::
  "ceil_overload \<Rightarrow>
     (GranularityScaleFactors, ('e, 'm) ContractionProblem_scheme, 'e, fp) member_function" where
  "WavesPerSIMD_call ovl =
     bnd (call_accessor freeSizeA 0) (\<lambda>sizeA.
     bnd (read_member mt0_scale) (\<lambda>scale0.
     let numTilesM = fmul binary32 (float_of_size sizeA) scale0 in
     bnd (call_accessor freeSizeB 0) (\<lambda>sizeB.
     bnd (read_member mt1_scale) (\<lambda>scale1.
     let numTilesN = fmul binary32 (float_of_size sizeB) scale1 in
     bnd (read_member devSolScale) (\<lambda>scale.
     ret (fmul binary32 (totalTiles ovl numTilesM numTilesN) scale))))))"

text \<open>
  The virtual call \<^verbatim>\<open>operator()\<close> on a configured feature and a problem: the body of the
  feature's kind runs on the feature's data member and the problem, and the call returns
  the result with the feature and the problem as the body left them.
\<close>

definition on_object ::
  "('t \<Rightarrow> MLFeature) \<Rightarrow> ('t, 'p, 'e, 'a) member_function \<Rightarrow> 't \<Rightarrow> 'p \<Rightarrow> ('e + 'a) \<times> MLFeature \<times> 'p" where
  "on_object kind m obj problem =
     (case m (obj, problem) of (r, obj', problem') \<Rightarrow> (r, kind obj', problem'))"

fun call ::
  "ceil_overload \<Rightarrow> (fp \<Rightarrow> fp) \<Rightarrow> MLFeature \<times> ('e, 'm) ContractionProblem_scheme \<Rightarrow>
     ('e + fp) \<times> MLFeature \<times> ('e, 'm) ContractionProblem_scheme" where
  "call ovl computeGranularity (FreeSizeA index, problem) =
     on_object FreeSizeA FreeSizeA_call index problem"
| "call ovl computeGranularity (FreeSizeB index, problem) =
     on_object FreeSizeB FreeSizeB_call index problem"
| "call ovl computeGranularity (BoundSize index, problem) =
     on_object BoundSize BoundSize_call index problem"
| "call ovl computeGranularity (Tile0Granularity val, problem) =
     on_object Tile0Granularity (Tile0Granularity_call computeGranularity) val problem"
| "call ovl computeGranularity (Tile1Granularity val, problem) =
     on_object Tile1Granularity (Tile1Granularity_call computeGranularity) val problem"
| "call ovl computeGranularity (CUGranularity val, problem) =
     on_object CUGranularity (CUGranularity_call ovl computeGranularity) val problem"
| "call ovl computeGranularity (WavesPerSIMD val, problem) =
     on_object WavesPerSIMD (WavesPerSIMD_call ovl) val problem"

section \<open>The declared input domain\<close>

text \<open>
  The spec declares the input domain of the formulas as non-negative finite scale
  factors: a \<^verbatim>\<open>float\<close> that is finite and has its sign bit clear.
\<close>

definition nonneg_float :: "fp \<Rightarrow> bool" where
  "nonneg_float x \<longleftrightarrow> is_format binary32 x \<and> is_finite x \<and> \<not> sign x"

definition scales_in_domain :: "GranularityScaleFactors \<Rightarrow> bool" where
  "scales_in_domain val \<longleftrightarrow>
     nonneg_float (mt0_scale val) \<and> nonneg_float (mt1_scale val) \<and>
     nonneg_float (devSolScale val)"

section \<open>Exact products and the granularity contract\<close>

text \<open>
  A value is exactly a \<^verbatim>\<open>float\<close> when storing it in a \<^verbatim>\<open>float\<close> and widening the \<^verbatim>\<open>float\<close>
  again gives the value back.
\<close>

definition exactly_float :: "fp \<Rightarrow> bool" where
  "exactly_float x \<longleftrightarrow> cvt binary64 (cvt binary32 x) = x"

text \<open>
  Modelled from the spec: the contract of \<^verbatim>\<open>GranularityFn\<close>, which the spec gives as
  monotonic and bounded, with a score in \<open>(0, 1]\<close>. The order of \<^verbatim>\<open>float\<close> values is that
  of the integers \<open>(-1)^s * m * 2 ^ (e + 149)\<close> (the exponent of a \<^verbatim>\<open>float\<close> is at least
  \<open>- 149\<close>), with the infinities beyond every finite value; NaN compares with nothing.
\<close>

fun float_key :: "fp \<Rightarrow> int option" where
  "float_key (Fin s m e) = Some ((if s then - 1 else 1) * (int m * 2 ^ nat (e + 149)))"
| "float_key (Inf s) = Some ((if s then - 1 else 1) * 2 ^ 277)"
| "float_key NaN = None"

definition float_le :: "fp \<Rightarrow> fp \<Rightarrow> bool" where
  "float_le x y =
     (case float_key x of None \<Rightarrow> False
      | Some a \<Rightarrow> (case float_key y of None \<Rightarrow> False | Some b \<Rightarrow> a \<le> b))"

definition float_less :: "fp \<Rightarrow> fp \<Rightarrow> bool" where
  "float_less x y =
     (case float_key x of None \<Rightarrow> False
      | Some a \<Rightarrow> (case float_key y of None \<Rightarrow> False | Some b \<Rightarrow> a < b))"

definition GranularityFn_contract :: "(fp \<Rightarrow> fp) \<Rightarrow> bool" where
  "GranularityFn_contract G \<longleftrightarrow>
     (\<forall>x y. is_format binary32 x \<and> is_format binary32 y \<and> float_le x y \<longrightarrow>
        float_le (G x) (G y))
     \<and> (\<forall>x. is_format binary32 x \<longrightarrow>
          is_format binary32 (G x) \<and> float_less (float_of_nat 0) (G x)
          \<and> float_le (G x) (float_of_nat 1))"

section \<open>Facts about rounding\<close>

declare bitlength.simps [simp del]

lemma bitlength_floorlog: "bitlength n = floorlog 2 n"
proof (induction n rule: bitlength.induct)
  case (1 n)
  show ?case
  proof (cases "n = 0")
    case True
    then show ?thesis by (simp add: bitlength.simps floorlog_def)
  next
    case False
    with 1 have "bitlength n = Suc (floorlog 2 (n div 2))"
      by (subst bitlength.simps) simp
    also have "\<dots> = floorlog 2 n"
      using False by (subst (2) compute_floorlog) simp
    finally show ?thesis .
  qed
qed

lemma bitlength_0 [simp]: "bitlength 0 = 0"
  by (simp add: bitlength.simps)

lemma bitlength_pos: "0 < m \<Longrightarrow> 0 < bitlength m"
  by (simp add: bitlength_floorlog floorlog_def)

lemma bitlength_bounds:
  assumes "0 < m"
  shows "2 ^ (bitlength m - 1) \<le> m" and "m < 2 ^ bitlength m"
  using floorlog_bounds [of m 2] assms by (simp_all add: bitlength_floorlog)

lemma bitlength_mult_pow: "0 < m \<Longrightarrow> bitlength (m * 2 ^ j) = bitlength m + j"
  by (simp add: bitlength_floorlog)

lemma bitlength_eqI:
  assumes "2 ^ (k - 1) \<le> m" "m < 2 ^ k" "0 < k"
  shows "bitlength m = k"
proof -
  have "bitlength m \<le> k"
    using assms by (simp add: bitlength_floorlog floorlog_le_iff)
  moreover have "k \<le> bitlength m"
    unfolding bitlength_floorlog using assms by (intro floorlog_geI) simp_all
  ultimately show ?thesis by simp
qed

lemma bitlength_le: "m < 2 ^ k \<Longrightarrow> bitlength m \<le> k"
  by (simp add: bitlength_floorlog floorlog_le_iff)

lemma bitlength_double: "0 < n \<Longrightarrow> bitlength (2 * n) = Suc (bitlength n)"
  using bitlength_mult_pow [of n 1] by (simp add: mult.commute)

lemma bitlength_double1: "bitlength (2 * n + 1) = Suc (bitlength n)"
  unfolding bitlength_floorlog by (subst compute_floorlog) simp

lemma bitlength_numeral [simp]: "bitlength (numeral n) = bitlen_num n"
proof (induction n)
  case One
  show ?case by (simp add: bitlength_floorlog compute_floorlog)
next
  case (Bit0 n)
  have "(numeral (num.Bit0 n) :: nat) = 2 * numeral n"
    by (metis mult_2 numeral_Bit0)
  then have "bitlength (numeral (num.Bit0 n)) = bitlength (2 * numeral n)"
    by (simp only:)
  also have "\<dots> = Suc (bitlength (numeral n))"
    by (rule bitlength_double) simp
  finally show ?case using Bit0 by simp
next
  case (Bit1 n)
  have "(numeral (num.Bit1 n) :: nat) = 2 * numeral n + 1"
    by (metis mult_2 numeral_Bit1)
  then have "bitlength (numeral (num.Bit1 n)) = bitlength (2 * numeral n + 1)"
    by (simp only:)
  also have "\<dots> = Suc (bitlength (numeral n))"
    by (rule bitlength_double1)
  finally show ?case using Bit1 by simp
qed

lemma bitlength_Suc_0 [simp]: "bitlength (Suc 0) = 1"
  by (simp add: bitlength_floorlog compute_floorlog)

lemma rnd_zero [simp]: "rnd f s 0 e = Fin s 0 (emin f)"
  by (simp add: rnd_def)

lemma rnd_canonical:
  assumes wf: "wf_format f" and c: "canonical f m e"
  shows "rnd f s (m * 2 ^ j) (e - int j) = Fin s m e"
proof (cases "m = 0")
  case True
  with c wf show ?thesis by (auto simp: canonical_def wf_format_def)
next
  case False
  then have m: "0 < m" by simp
  have bl: "int (bitlength m) \<le> int (prec f)"
    using c by (simp add: canonical_def bitlength_le)
  have e': "max (e - int j + int (bitlength (m * 2 ^ j)) - int (prec f)) (emin f) = e"
  proof (cases "e = emin f")
    case True
    with bl show ?thesis by (simp add: bitlength_mult_pow m)
  next
    case False
    with c wf have "bitlength m = prec f"
      by (intro bitlength_eqI) (auto simp: canonical_def wf_format_def)
    with c show ?thesis by (simp add: bitlength_mult_pow m canonical_def)
  qed
  have fin: "finish f s m e = Fin s m e"
    using c by (simp add: finish_def canonical_def)
  show ?thesis
  proof (cases "j = 0")
    case True
    with e' m fin show ?thesis by (simp add: rnd_def Let_def)
  next
    case False
    then have "\<not> e \<le> e - int j" by simp
    moreover have "(0::nat) < 2 ^ (j - 1)" by simp
    ultimately show ?thesis
      using e' m fin by (simp add: rnd_def Let_def)
  qed
qed

lemma wf_binary32 [simp]: "wf_format binary32"
  by (simp add: wf_format_def binary32_def)

lemma wf_binary64 [simp]: "wf_format binary64"
  by (simp add: wf_format_def binary64_def)

text \<open>Every rounding ends in \<open>finish\<close>, at the target exponent, with a significand of at
  most \<open>prec\<close> bits (or the carry \<open>2 ^ prec\<close>) that is normal above the least exponent.\<close>

lemma rnd_finish:
  assumes wf: "wf_format f" and m: "0 < m"
  obtains m' where
    "rnd f s m e = finish f s m' (max (e + int (bitlength m) - int (prec f)) (emin f))"
    "m' \<le> 2 ^ prec f"
    "max (e + int (bitlength m) - int (prec f)) (emin f) = emin f \<or> 2 ^ (prec f - 1) \<le> m'"
proof -
  define n where "n = bitlength m"
  define p where "p = prec f"
  define e' where "e' = max (e + int n - int p) (emin f)"
  have n: "0 < n" "2 ^ (n - 1) \<le> m" "m < 2 ^ n"
    using bitlength_pos [OF m] bitlength_bounds [OF m] by (simp_all add: n_def)
  have p: "0 < p" using wf by (simp add: wf_format_def p_def)
  have m0: "m \<noteq> 0" using m by simp
  have "\<exists>m'. rnd f s m e = finish f s m' e' \<and> m' \<le> 2 ^ p \<and> (e' = emin f \<or> 2 ^ (p - 1) \<le> m')"
  proof (cases "e' \<le> e")
    case True
    define j where "j = nat (e - e')"
    have j: "int j = e - e'" using True by (simp add: j_def)
    have "n + j \<le> p" using j by (simp add: e'_def)
    then have a: "(2::nat) ^ (n + j) \<le> 2 ^ p" by (intro power_increasing) simp_all
    have b: "m * 2 ^ j < 2 ^ (n + j)" using n(3) by (simp add: power_add)
    have up: "m * 2 ^ j \<le> 2 ^ p" using less_le_trans [OF b a] by simp
    have norm: "e' = emin f \<or> 2 ^ (p - 1) \<le> m * 2 ^ j"
    proof (cases "e' = emin f")
      case False
      then have "e' = e + int n - int p" by (simp add: e'_def max_def split: if_splits)
      with j have "p = n + j" by simp
      then have "(2::nat) ^ (p - 1) = 2 ^ (n - 1) * 2 ^ j"
        using n(1) by (simp flip: power_add)
      with n(2) show ?thesis by simp
    qed simp
    have "rnd f s m e = finish f s (m * 2 ^ j) e'"
      using True m0 unfolding rnd_def Let_def j_def e'_def n_def p_def
      by (simp only: if_False if_True)
    with up norm show ?thesis by blast
  next
    case False
    define k where "k = nat (e' - e)"
    have k: "int k = e' - e" "0 < k" using False by (simp_all add: k_def)
    define q where "q = m div 2 ^ k"
    define q' where "q' = (if 2 ^ (k - 1) < m mod 2 ^ k \<or> (m mod 2 ^ k = 2 ^ (k - 1) \<and> odd q) then q + 1 else q)"
    have "n \<le> p + k" using k by (simp add: e'_def)
    then have "(2::nat) ^ n \<le> 2 ^ (p + k)" by (intro power_increasing) simp_all
    then have "m < 2 ^ (p + k)" using n(3) by (rule less_le_trans [rotated])
    then have "m < 2 ^ p * 2 ^ k" by (simp add: power_add)
    then have "q < 2 ^ p" unfolding q_def by (rule less_mult_imp_div_less)
    then have up: "q' \<le> 2 ^ p" by (simp add: q'_def)
    have norm: "e' = emin f \<or> 2 ^ (p - 1) \<le> q'"
    proof (cases "e' = emin f")
      case False
      then have "e' = e + int n - int p" by (simp add: e'_def max_def split: if_splits)
      with k have "n = p + k" by simp
      then have "(2::nat) ^ (n - 1) = 2 ^ (p - 1) * 2 ^ k"
        using p by (simp flip: power_add)
      with n(2) have "2 ^ (p - 1) \<le> q"
        by (simp add: q_def less_eq_div_iff_mult_less_eq)
      then show ?thesis by (simp add: q'_def)
    qed simp
    have "rnd f s m e = finish f s q' e'"
      using False m0 unfolding rnd_def Let_def q'_def q_def k_def e'_def n_def p_def
      by (simp only: if_False)
    with up norm show ?thesis by blast
  qed
  then show thesis using that by (auto simp: e'_def n_def p_def)
qed

lemma finish_is_format:
  assumes "wf_format f" "m \<le> 2 ^ prec f" "emin f \<le> e" "e = emin f \<or> 2 ^ (prec f - 1) \<le> m"
  shows "is_format f (finish f s m e)"
proof -
  have "(2::nat) ^ (prec f - 1) < 2 ^ prec f"
    using assms(1) by (simp add: wf_format_def)
  then show ?thesis
    using assms by (auto simp: finish_def canonical_def wf_format_def)
qed

lemma rnd_is_format:
  assumes wf: "wf_format f"
  shows "is_format f (rnd f s m e)"
proof (cases "m = 0")
  case True
  with wf show ?thesis by (simp add: canonical_def wf_format_def)
next
  case False
  then have "0 < m" by simp
  from rnd_finish [OF wf this, of s e] obtain m' where
    "rnd f s m e = finish f s m' (max (e + int (bitlength m) - int (prec f)) (emin f))"
    "m' \<le> 2 ^ prec f"
    "max (e + int (bitlength m) - int (prec f)) (emin f) = emin f \<or> 2 ^ (prec f - 1) \<le> m'"
    by blast
  then show ?thesis using wf by (simp add: finish_is_format)
qed

lemma sign_rnd [simp]: "sign (rnd f s m e) = s"
  by (simp add: rnd_def finish_def Let_def)

text \<open>A value below \<open>2 ^ (emax + prec - 1)\<close> does not overflow.\<close>

lemma rnd_is_finite:
  assumes wf: "wf_format f" and small: "e + int (bitlength m) < emax f + int (prec f)"
  shows "is_finite (rnd f s m e)"
proof (cases "m = 0")
  case True
  then show ?thesis by simp
next
  case False
  then have "0 < m" by simp
  from rnd_finish [OF wf this, of s e] obtain m' where
    r: "rnd f s m e = finish f s m' (max (e + int (bitlength m) - int (prec f)) (emin f))"
    by blast
  have "max (e + int (bitlength m) - int (prec f)) (emin f) + 1 \<le> emax f"
    using wf small by (auto simp: wf_format_def max_def)
  then show ?thesis unfolding r by (simp add: finish_def)
qed

text \<open>
  Where bits are dropped, the significand passed to \<open>finish\<close> is a nearest one at the
  target exponent: the exact value \<open>m * 2 ^ e\<close> lies within half a unit of
  \<open>q * 2 ^ (e + k)\<close>, and where it lies exactly half way, \<open>q\<close> is even.
\<close>

lemma rnd_nearest:
  assumes m: "0 < m"
    and e': "e' = max (e + int (bitlength m) - int (prec f)) (emin f)"
    and lt: "e < e'"
  obtains q where "rnd f s m e = finish f s q e'"
    and "2 * int m \<le> (2 * int q + 1) * 2 ^ nat (e' - e)"
    and "(2 * int q - 1) * 2 ^ nat (e' - e) \<le> 2 * int m"
    and "2 * int m = (2 * int q + 1) * 2 ^ nat (e' - e)
         \<or> 2 * int m = (2 * int q - 1) * 2 ^ nat (e' - e) \<Longrightarrow> even q"
proof -
  define k where "k = nat (e' - e)"
  have e'_def: "e' = max (e + int (bitlength m) - int (prec f)) (emin f)" by (rule e')
  have k: "0 < k" "e + int k = e'" using lt by (simp_all add: k_def)
  define q0 where "q0 = m div 2 ^ k"
  define r where "r = m mod 2 ^ k"
  define h :: nat where "h = 2 ^ (k - 1)"
  define P :: nat where "P = 2 ^ k"
  define X where "X = q0 * P"
  have P: "P = 2 * h" using k(1) by (cases k) (simp_all add: P_def h_def)
  have mX: "m = X + r"
    unfolding X_def q0_def r_def P_def by (rule div_mult_mod_eq [symmetric])
  have rP: "r < P" by (simp add: r_def P_def)
  define q where "q = (if h < r \<or> (r = h \<and> odd q0) then q0 + 1 else q0)"
  have m0: "m \<noteq> 0" using m by simp
  have nle: "\<not> max (e + int (bitlength m) - int (prec f)) (emin f) \<le> e"
    using lt unfolding e' by (rule less_le_not_le [THEN iffD1, THEN conjunct2])
  have eq: "rnd f s m e = finish f s q e'"
    unfolding q_def h_def q0_def r_def k_def rnd_def Let_def e'
    using m0 nle by (simp only: if_False)
  have up: "int q * int P = int X + (if h < r \<or> (r = h \<and> odd q0) then int P else 0)"
    by (simp add: q_def X_def algebra_simps)
  have b1: "2 * int m \<le> (2 * int q + 1) * int P"
    using up mX rP P by (auto simp: algebra_simps split: if_splits)
  have b2: "(2 * int q - 1) * int P \<le> 2 * int m"
    using up mX rP P by (auto simp: algebra_simps split: if_splits)
  have tie: "even q"
    if "2 * int m = (2 * int q + 1) * int P \<or> 2 * int m = (2 * int q - 1) * int P"
  proof (cases "h < r \<or> (r = h \<and> odd q0)")
    case True
    with up have u: "int q * int P = int X + int P" by simp
    with that mX rP P have "r = h" by (auto simp: algebra_simps)
    with True have "odd q0" by simp
    moreover from True have "q = q0 + 1" by (simp add: q_def)
    ultimately show ?thesis by simp
  next
    case False
    with up have u: "int q * int P = int X" by simp
    with that mX rP P have "r = h" by (auto simp: algebra_simps)
    with False have "even q0" by simp
    moreover from False have "q = q0" by (simp add: q_def)
    ultimately show ?thesis by simp
  qed
  show thesis
    using that [OF eq] b1 b2 tie by (simp add: P_def k_def)
qed

lemma binary32_simps [simp]:
  "prec binary32 = 24" "emin binary32 = - 149" "emax binary32 = 104"
  by (simp_all add: binary32_def)

lemma binary64_simps [simp]:
  "prec binary64 = 53" "emin binary64 = - 1074" "emax binary64 = 971"
  by (simp_all add: binary64_def)

lemma rnd_exact_up:
  assumes wf: "wf_format f" and m: "0 < m" and c: "canonical f (m * 2 ^ j) e"
  shows "rnd f s m (e + int j) = Fin s (m * 2 ^ j) e"
proof -
  have bl: "bitlength (m * 2 ^ j) = bitlength m + j"
    using m by (rule bitlength_mult_pow)
  have le: "int (bitlength m) + int j \<le> int (prec f)"
    using c bitlength_le [of "m * 2 ^ j" "prec f"] by (simp add: canonical_def bl)
  have e': "max (e + int j + int (bitlength m) - int (prec f)) (emin f) = e"
  proof (cases "e = emin f")
    case True
    with le show ?thesis by simp
  next
    case False
    with c wf have "bitlength (m * 2 ^ j) = prec f"
      by (intro bitlength_eqI) (auto simp: canonical_def wf_format_def)
    with c show ?thesis by (simp add: bl canonical_def)
  qed
  have fin: "finish f s (m * 2 ^ j) e = Fin s (m * 2 ^ j) e"
    using c by (simp add: finish_def canonical_def)
  show ?thesis
    using m e' fin by (simp add: rnd_def Let_def)
qed

text \<open>Trailing zero bits do not change a rounding.\<close>

lemma rnd_scale: "rnd f s (a * 2 ^ j) (e - int j) = rnd f s a e"
proof (cases "a = 0")
  case True
  then show ?thesis by simp
next
  case False
  then have a: "0 < a" by simp
  define e' where "e' = max (e + int (bitlength a) - int (prec f)) (emin f)"
  have bl: "bitlength (a * 2 ^ j) = bitlength a + j"
    using a by (rule bitlength_mult_pow)
  have e's: "max (e - int j + int (bitlength (a * 2 ^ j)) - int (prec f)) (emin f) = e'"
    by (simp add: bl e'_def)
  have a0: "a * 2 ^ j \<noteq> 0" using a by simp
  have L: "rnd f s (a * 2 ^ j) (e - int j) =
      (if e' \<le> e - int j then finish f s (a * 2 ^ j * 2 ^ nat (e - int j - e')) e'
       else finish f s
         (if 2 ^ (nat (e' - (e - int j)) - 1) < a * 2 ^ j mod 2 ^ nat (e' - (e - int j)) \<or>
             (a * 2 ^ j mod 2 ^ nat (e' - (e - int j)) = 2 ^ (nat (e' - (e - int j)) - 1) \<and>
              odd (a * 2 ^ j div 2 ^ nat (e' - (e - int j))))
          then a * 2 ^ j div 2 ^ nat (e' - (e - int j)) + 1
          else a * 2 ^ j div 2 ^ nat (e' - (e - int j))) e')"
    unfolding rnd_def Let_def e's using a0 by (simp only: if_False)
  have R: "rnd f s a e =
      (if e' \<le> e then finish f s (a * 2 ^ nat (e - e')) e'
       else finish f s
         (if 2 ^ (nat (e' - e) - 1) < a mod 2 ^ nat (e' - e) \<or>
             (a mod 2 ^ nat (e' - e) = 2 ^ (nat (e' - e) - 1) \<and> odd (a div 2 ^ nat (e' - e)))
          then a div 2 ^ nat (e' - e) + 1
          else a div 2 ^ nat (e' - e)) e')"
    unfolding rnd_def Let_def e'_def using False by (simp only: if_False)
  consider (exact) "e' \<le> e - int j" | (mid) "e - int j < e'" "e' \<le> e" | (round) "e < e'"
    by linarith
  then show ?thesis
  proof cases
    case exact
    then have "nat (e - e') = j + nat (e - int j - e')" by simp
    then have "a * 2 ^ j * 2 ^ nat (e - int j - e') = a * 2 ^ nat (e - e')"
      by (simp only: power_add mult.assoc)
    moreover from exact have "e' \<le> e" by simp
    ultimately show ?thesis unfolding L R using exact by (simp only: if_True)
  next
    case mid
    define ks where "ks = nat (e' - (e - int j))"
    have ks: "0 < ks" "ks \<le> j" "j - ks = nat (e - e')" using mid by (simp_all add: ks_def)
    have "(2::nat) ^ j = 2 ^ (j - ks) * 2 ^ ks"
      using ks(2) by (simp flip: power_add)
    then have split: "a * 2 ^ j = a * 2 ^ (j - ks) * 2 ^ ks" by simp
    have d: "a * 2 ^ j div 2 ^ ks = a * 2 ^ (j - ks)" and r: "a * 2 ^ j mod 2 ^ ks = 0"
      unfolding split by simp_all
    have h: "(0::nat) < 2 ^ (ks - 1)" by simp
    from mid have c: "\<not> e' \<le> e - int j" "e' \<le> e" by simp_all
    show ?thesis
      unfolding L R using c h by (simp add: d r ks(3) flip: ks_def)
  next
    case round
    define k where "k = nat (e' - e)"
    have k: "0 < k" "nat (e' - (e - int j)) = k + j" using round by (simp_all add: k_def)
    have d: "a * 2 ^ j div 2 ^ (k + j) = a div 2 ^ k"
      by (simp add: power_add)
    have r: "a * 2 ^ j mod 2 ^ (k + j) = a mod 2 ^ k * 2 ^ j"
      by (simp add: power_add mod_mult_mult2)
    have h: "(2::nat) ^ (k + j - 1) = 2 ^ (k - 1) * 2 ^ j"
      using k(1) by (simp flip: power_add)
    have cond: "(2 ^ (k + j - 1) < a * 2 ^ j mod 2 ^ (k + j) \<or>
        (a * 2 ^ j mod 2 ^ (k + j) = 2 ^ (k + j - 1) \<and> odd (a * 2 ^ j div 2 ^ (k + j)))) =
       (2 ^ (k - 1) < a mod 2 ^ k \<or> (a mod 2 ^ k = 2 ^ (k - 1) \<and> odd (a div 2 ^ k)))"
      unfolding d r h by simp
    from round have c: "\<not> e' \<le> e - int j" "\<not> e' \<le> e" by simp_all
    show ?thesis
      unfolding L R k(2) k_def [symmetric] using c by (simp only: cond cond [unfolded d] d if_False)
  qed
qed

text \<open>Rules for evaluating the model at concrete inputs, in two steps: first the
  features and the problem, then the arithmetic.\<close>

lemmas model_eval = CUGranularity_eval_def WavesPerSIMD_eval_def Tile0Granularity_eval_def
  Tile1Granularity_eval_def FreeSizeA_eval_def FreeSizeB_eval_def BoundSize_eval_def
  tilesPerCu_def totalTiles_def NumBatches_def problem_of_sizes_def at_index_def
  float_of_size_def

lemmas float_eval = rnd_def finish_def Let_def float_of_nat_def numeral_2_eq_2 [symmetric]

lemmas problem_eval = problem_of_sizes_def at_index_def

lemmas body_defs = ret_def bnd_def read_member_def call_accessor_def on_object_def
  FreeSizeA_call_def FreeSizeB_call_def BoundSize_call_def Tile0Granularity_call_def
  Tile1Granularity_call_def CUGranularity_call_def WavesPerSIMD_call_def

lemmas Type_defs = FreeSizeA_Type_def FreeSizeB_Type_def BoundSize_Type_def
  Tile0Granularity_Type_def Tile1Granularity_Type_def CUGranularity_Type_def
  WavesPerSIMD_Type_def

text \<open>
  The model at known values: the \<^verbatim>\<open>float\<close> nearest to \<open>0.1\<close> is \<^verbatim>\<open>0x3DCCCCCD\<close> and the
  one nearest to \<open>1 / 3\<close> is \<^verbatim>\<open>0x3EAAAAAB\<close>; \<open>2 ^ 24 + 1\<close> and \<open>2 ^ 24 + 3\<close> are ties and
  go to the even neighbour; the \<^verbatim>\<open>double\<close> of \<open>0.1f\<close> is \<^verbatim>\<open>0x3FB99999A0000000\<close>; twice
  \<open>2 ^ 127\<close> overflows; a quarter of the least normal number is subnormal.
\<close>

lemma known_values:
  "fdiv binary32 (float_of_nat 1) (float_of_nat 10) = Fin False 13421773 (- 27)"
  "fdiv binary32 (float_of_nat 1) (float_of_nat 3) = Fin False 11184811 (- 25)"
  "float_of_nat 16777217 = Fin False 8388608 1"
  "float_of_nat 16777219 = Fin False 8388610 1"
  "cvt binary64 (Fin False 13421773 (- 27)) = Fin False 7205759511166976 (- 56)"
  "fmul binary32 (Fin False 8388608 104) (float_of_nat 2) = Inf False"
  "fmul binary32 (Fin False 8388608 (- 149)) (fdiv binary32 (float_of_nat 1) (float_of_nat 4))
     = Fin False 2097152 (- 149)"
  "fceil binary32 (Fin False 10485760 (- 22)) = Fin False 12582912 (- 22)"
  "fceil binary32 (Fin True 10485760 (- 22)) = Fin True 8388608 (- 22)"
  by (simp_all add: float_eval)

section \<open>Facts about the operations\<close>

lemma float_of_nat_1:
  "float_of_nat 1 = Fin False (2 ^ 23) (- 23)" "float_of_nat (Suc 0) = Fin False (2 ^ 23) (- 23)"
  by (simp_all add: float_eval NumBatches_def)

lemma float_of_nat_pow2:
  assumes "k \<le> 127"
  shows "float_of_nat (2 ^ k) = Fin False (2 ^ 23) (int k - 23)"
proof (cases "k \<le> 23")
  case True
  then have "k + (23 - k) = 23" by simp
  then have eq: "(2::nat) ^ k * 2 ^ (23 - k) = 2 ^ 23"
    using power_add [of "2::nat" k "23 - k"] by (simp only:)
  have c: "canonical binary32 (2 ^ k * 2 ^ (23 - k)) (int k - 23)"
    unfolding eq using assms by (simp add: canonical_def)
  have r: "rnd binary32 False (2 ^ k) (int k - 23 + int (23 - k)) = Fin False (2 ^ k * 2 ^ (23 - k)) (int k - 23)"
    by (rule rnd_exact_up [OF wf_binary32 _ c]) simp
  have z: "int k - 23 + int (23 - k) = 0" using True by arith
  show ?thesis using r unfolding z eq float_of_nat_def .
next
  case False
  then have "23 + (k - 23) = k" by simp
  then have eq: "(2::nat) ^ 23 * 2 ^ (k - 23) = 2 ^ k"
    using power_add [of "2::nat" 23 "k - 23"] by (simp only:)
  have c: "canonical binary32 (2 ^ 23) (int k - 23)"
    using assms by (simp add: canonical_def)
  have r: "rnd binary32 False (2 ^ 23 * 2 ^ (k - 23)) (int k - 23 - int (k - 23)) = Fin False (2 ^ 23) (int k - 23)"
    by (rule rnd_canonical [OF wf_binary32 c])
  have z: "int k - 23 - int (k - 23) = 0" using False by arith
  show ?thesis using r unfolding z eq float_of_nat_def .
qed

lemma float_of_size_cases:
  "float_of_size w = Fin False 0 (- 149)
   \<or> (\<exists>m e. float_of_size w = Fin False m e \<and> 2 ^ 23 \<le> m \<and> m < 2 ^ 24 \<and> - 23 \<le> e \<and> e \<le> 41)"
proof (cases "unat w = 0")
  case True
  then show ?thesis by (simp add: float_of_size_def float_of_nat_def)
next
  case False
  then have pos: "0 < unat w" by simp
  have "unat w < 2 ^ 64" using unsigned_less [of w] by simp
  then have up: "bitlength (unat w) \<le> 64" by (rule bitlength_le)
  have lo: "0 < bitlength (unat w)" using pos by (rule bitlength_pos)
  define e0 where "e0 = int (bitlength (unat w)) - 24"
  have e0: "max (0 + int (bitlength (unat w)) - int (prec binary32)) (emin binary32) = e0"
    using lo by (simp add: e0_def)
  from rnd_finish [OF wf_binary32 pos, of False 0] obtain m' where
    r: "float_of_size w = finish binary32 False m' e0"
    and m': "m' \<le> 2 ^ 24" "e0 = - 149 \<or> 2 ^ 23 \<le> m'"
    unfolding e0 float_of_size_def float_of_nat_def by auto
  have e0b: "- 23 \<le> e0" "e0 \<le> 40" using lo up by (simp_all add: e0_def)
  with m' have n: "2 ^ 23 \<le> m'" by auto
  show ?thesis
  proof (cases "m' = 2 ^ 24")
    case True
    with e0b have "float_of_size w = Fin False (2 ^ 23) (e0 + 1)"
      unfolding r by (simp add: finish_def)
    with e0b show ?thesis by simp
  next
    case False
    with m' have "m' < 2 ^ 24" by simp
    moreover from False e0b have "float_of_size w = Fin False m' e0"
      unfolding r by (simp add: finish_def)
    ultimately show ?thesis using n e0b by simp
  qed
qed

lemma fceil_is_format: "wf_format f \<Longrightarrow> is_format f (fceil f x)"
  by (cases x) (simp_all add: rnd_is_format Let_def)

lemma NumBatches_eq: "NumBatches = Fin False (2 ^ 23) (- 23)"
  by (simp add: float_eval NumBatches_def)

text \<open>Multiplying by one changes no \<^verbatim>\<open>float\<close>.\<close>

lemma fmul_NumBatches:
  assumes "is_format binary32 y"
  shows "fmul binary32 NumBatches y = y"
proof (cases y)
  case (Fin t n d)
  with assms have "canonical binary32 n d" by simp
  from rnd_canonical [OF wf_binary32 this, of t 23]
  have "rnd binary32 t (n * 2 ^ 23) (d - 23) = Fin t n d" by simp
  then show ?thesis by (simp add: Fin NumBatches_eq mult.commute)
qed (simp_all add: NumBatches_eq)

lemma tilesPerCu_ceil_float:
  "tilesPerCu ceil_float m n d = fmul binary32 (totalTiles ceil_float m n) d"
  by (simp add: tilesPerCu_def totalTiles_def fmul_NumBatches fceil_is_format)

lemma fdiv_by_pow2:
  assumes c: "canonical binary32 m (e - int k)"
  shows "fdiv binary32 (Fin s m e) (Fin False (2 ^ 23) (int k - 23)) = Fin s m (e - int k)"
proof -
  have q: "m * 2 ^ 50 div 2 ^ 23 = m * 2 ^ 27" "m * 2 ^ 50 mod 2 ^ 23 = 0" by simp_all
  have "fdiv binary32 (Fin s m e) (Fin False (2 ^ 23) (int k - 23))
      = rnd binary32 s (2 * (m * 2 ^ 27)) (e - (int k - 23) - int 50 - 1)"
    using q by (simp add: Let_def)
  also have "2 * (m * 2 ^ 27) = m * 2 ^ 28" by simp
  also have "e - (int k - 23) - int 50 - 1 = e - int k - int 28" by simp
  also have "rnd binary32 s (m * 2 ^ 28) (e - int k - int 28) = Fin s m (e - int k)"
    by (rule rnd_canonical [OF wf_binary32 c])
  finally show ?thesis .
qed

lemma fmul_by_pow2_reciprocal:
  assumes c: "canonical binary32 m (e - int k)"
  shows "fmul binary32 (Fin s m e) (Fin False (2 ^ 23) (- 23 - int k)) = Fin s m (e - int k)"
proof -
  have "fmul binary32 (Fin s m e) (Fin False (2 ^ 23) (- 23 - int k))
      = rnd binary32 s (m * 2 ^ 23) (e + (- 23 - int k))"
    by simp
  also have "e + (- 23 - int k) = e - int k - int 23" by simp
  also have "rnd binary32 s (m * 2 ^ 23) (e - int k - int 23) = Fin s m (e - int k)"
    by (rule rnd_canonical [OF wf_binary32 c])
  finally show ?thesis .
qed

lemma fdiv_one_pow2:
  assumes "k \<le> 126"
  shows "fdiv binary32 (float_of_nat 1) (float_of_nat (2 ^ k)) = Fin False (2 ^ 23) (- 23 - int k)"
proof -
  have c: "canonical binary32 (2 ^ 23) (- 23 - int k)"
    using assms by (simp add: canonical_def)
  have p: "float_of_nat (2 ^ k) = Fin False (2 ^ 23) (int k - 23)"
    using assms by (intro float_of_nat_pow2) simp
  show ?thesis
    unfolding p float_of_nat_1 by (rule fdiv_by_pow2 [OF c])
qed

text \<open>Scaling by a power of two, as a product with the reciprocal or as a quotient, is
  exact: both give the same \<^verbatim>\<open>float\<close>.\<close>

lemma fmul_reciprocal_pow2:
  assumes "k \<le> 126"
  shows "fmul binary32 (float_of_size w) (fdiv binary32 (float_of_nat 1) (float_of_nat (2 ^ k)))
    = fdiv binary32 (float_of_size w) (float_of_nat (2 ^ k))"
proof -
  have r1: "fdiv binary32 (float_of_nat 1) (float_of_nat (2 ^ k)) = Fin False (2 ^ 23) (- 23 - int k)"
    using assms by (rule fdiv_one_pow2)
  have r2: "float_of_nat (2 ^ k) = Fin False (2 ^ 23) (int k - 23)"
    using assms by (intro float_of_nat_pow2) simp
  from float_of_size_cases [of w] show ?thesis
  proof
    assume z: "float_of_size w = Fin False 0 (- 149)"
    show ?thesis
      unfolding r1 unfolding r2 z by (simp add: Let_def)
  next
    assume "\<exists>m e. float_of_size w = Fin False m e \<and> 2 ^ 23 \<le> m \<and> m < 2 ^ 24 \<and> - 23 \<le> e \<and> e \<le> 41"
    then obtain m e where w: "float_of_size w = Fin False m e"
      and b: "2 ^ 23 \<le> m" "m < 2 ^ 24" "- 23 \<le> e" "e \<le> 41"
      by blast
    have c: "canonical binary32 m (e - int k)"
      using b assms by (simp add: canonical_def)
    show ?thesis
      unfolding r1 unfolding r2 w
      by (simp only: fmul_by_pow2_reciprocal [OF c] fdiv_by_pow2 [OF c])
  qed
qed

lemma float_of_size_0: "float_of_size 0 = Fin False 0 (- 149)"
  by (simp add: float_of_size_def float_of_nat_def)

lemma fmul_is_format: "wf_format f \<Longrightarrow> is_format f (fmul f x y)"
  by (cases x; cases y) (simp_all add: rnd_is_format)

lemma cvt_is_format: "wf_format f \<Longrightarrow> is_format f (cvt f x)"
  by (cases x) (simp_all add: rnd_is_format)

lemma sign_fmul: "is_finite x \<Longrightarrow> is_finite y \<Longrightarrow> sign (fmul f x y) = (sign x \<noteq> sign y)"
  by (cases x; cases y) simp_all

lemma fmul_zero_left:
  "is_finite y \<Longrightarrow> fmul f (Fin s 0 e) y = Fin (s \<noteq> sign y) 0 (emin f)"
  by (cases y) simp_all

lemma fmul_zero_right:
  "is_finite x \<Longrightarrow> fmul f x (Fin t 0 d) = Fin (sign x \<noteq> t) 0 (emin f)"
  by (cases x) simp_all

lemma fceil_zero: "fceil f (Fin s 0 e) = Fin s 0 (emin f)"
  by (simp add: Let_def)

lemma sign_fceil: "sign (fceil f x) = sign x"
  by (cases x) (simp_all add: Let_def)

lemma sign_cvt: "sign (cvt f x) = sign x"
  by (cases x) simp_all

text \<open>The ceiling of a finite number of a format is finite: the greatest finite number
  is an integer.\<close>

lemma fceil_is_finite:
  assumes wf: "wf_format f" and x: "is_format f x" "is_finite x"
  shows "is_finite (fceil f x)"
proof (cases x)
  case (Fin s m e)
  with x have c: "canonical f m e" by simp
  show ?thesis
  proof (cases "0 \<le> e")
    case True
    from rnd_canonical [OF wf c, of s 0] have "rnd f s m e = Fin s m e" by simp
    with True show ?thesis by (simp add: Fin)
  next
    case False
    define q where "q = (if s \<or> m mod 2 ^ nat (- e) = 0 then m div 2 ^ nat (- e) else m div 2 ^ nat (- e) + 1)"
    have "q \<le> m div 2 ^ nat (- e) + 1" by (simp add: q_def)
    moreover have "m div 2 ^ nat (- e) \<le> m" by (rule div_le_dividend)
    moreover have "m < 2 ^ prec f" using c by (simp add: canonical_def)
    ultimately have "q < 2 * 2 ^ prec f" by linarith
    then have "q < 2 ^ (prec f + 1)" by simp
    then have "bitlength q \<le> prec f + 1" by (rule bitlength_le)
    moreover have "2 \<le> emax f" using wf by (simp add: wf_format_def)
    ultimately have "0 + int (bitlength q) < emax f + int (prec f)" by simp
    then have "is_finite (rnd f s q 0)" by (rule rnd_is_finite [OF wf])
    with False show ?thesis by (simp add: Fin Let_def q_def)
  qed
qed (use x in simp_all)

lemma cvt_binary64_is_finite:
  assumes "is_format binary32 x" "is_finite x"
  shows "is_finite (cvt binary64 x)"
proof (cases x)
  case (Fin s m e)
  with assms have c: "m < 2 ^ 24" "e \<le> 104" by (simp_all add: canonical_def)
  from c(1) have "bitlength m \<le> 24" by (rule bitlength_le)
  with c(2) have "e + int (bitlength m) < emax binary64 + int (prec binary64)" by simp
  then have "is_finite (rnd binary64 s m e)" by (rule rnd_is_finite [OF wf_binary64])
  then show ?thesis by (simp add: Fin)
qed (use assms in simp_all)

lemma cvt_zero: "cvt f (Fin s 0 e) = Fin s 0 (emin f)"
  by simp

text \<open>The two products when one tile count is zero and the other finite.\<close>

lemma tilesPerCu_zero:
  assumes n: "is_format binary32 n" "is_finite n" "\<not> sign n"
    and d: "is_format binary32 d" "is_finite d" "\<not> sign d"
  shows "tilesPerCu ovl (Fin False 0 (- 149)) n d = Fin False 0 (- 149)"
    and "tilesPerCu ovl n (Fin False 0 (- 149)) d = Fin False 0 (- 149)"
proof -
  have cn: "is_finite (fceil binary32 n)" "\<not> sign (fceil binary32 n)"
    using n by (simp_all add: fceil_is_finite sign_fceil)
  have n64: "is_finite (fceil binary64 (cvt binary64 n))" "\<not> sign (fceil binary64 (cvt binary64 n))"
    using n by (simp_all add: fceil_is_finite cvt_binary64_is_finite cvt_is_format sign_fceil sign_cvt)
  have d64: "is_finite (cvt binary64 d)" "\<not> sign (cvt binary64 d)"
    using d by (simp_all add: cvt_binary64_is_finite sign_cvt)
  have one64: "cvt binary64 NumBatches = Fin False 4503599627370496 (- 52)"
    by (simp add: float_eval NumBatches_def)
  have b64: "fmul binary64 (Fin False 4503599627370496 (- 52)) (fceil binary64 (cvt binary64 n))
      = fceil binary64 (cvt binary64 n)"
  proof (cases "fceil binary64 (cvt binary64 n)")
    case (Fin u k j)
    have "is_format binary64 (fceil binary64 (cvt binary64 n))"
      by (simp add: fceil_is_format)
    with Fin have "canonical binary64 k j" by simp
    from rnd_canonical [OF wf_binary64 this, of u 52] n64(2)
    show ?thesis by (simp add: Fin mult.commute)
  qed (use n64 in simp_all)
  show "tilesPerCu ovl (Fin False 0 (- 149)) n d = Fin False 0 (- 149)"
    using cn n64 d d64
    by (cases ovl)
      (simp_all add: tilesPerCu_def fceil_zero fmul_NumBatches canonical_def one64
        fmul_zero_left cvt_zero del: fceil.simps cvt.simps)
  show "tilesPerCu ovl n (Fin False 0 (- 149)) d = Fin False 0 (- 149)"
    using cn n64 d d64
    by (cases ovl)
      (simp_all add: tilesPerCu_def fceil_zero fmul_NumBatches fceil_is_format one64 b64
        fmul_zero_right fmul_zero_left cvt_zero del: fceil.simps cvt.simps)
qed

lemma totalTiles_zero:
  assumes n: "is_format binary32 n" "is_finite n" "\<not> sign n"
  shows "totalTiles ovl (Fin False 0 (- 149)) n = Fin False 0 (- 149)"
    and "totalTiles ovl n (Fin False 0 (- 149)) = Fin False 0 (- 149)"
proof -
  have cn: "is_finite (fceil binary32 n)" "\<not> sign (fceil binary32 n)"
    using n by (simp_all add: fceil_is_finite sign_fceil)
  have n64: "is_finite (fceil binary64 (cvt binary64 n))" "\<not> sign (fceil binary64 (cvt binary64 n))"
    using n by (simp_all add: fceil_is_finite cvt_binary64_is_finite cvt_is_format sign_fceil sign_cvt)
  show "totalTiles ovl (Fin False 0 (- 149)) n = Fin False 0 (- 149)"
    using cn n64
    by (cases ovl)
      (simp_all add: totalTiles_def fceil_zero fmul_zero_left cvt_zero del: fceil.simps cvt.simps)
  show "totalTiles ovl n (Fin False 0 (- 149)) = Fin False 0 (- 149)"
    using cn n64
    by (cases ovl)
      (simp_all add: totalTiles_def fceil_zero fmul_zero_right cvt_zero del: fceil.simps cvt.simps)
qed

lemma fmul_size_0:
  assumes "is_finite x" "\<not> sign x"
  shows "fmul binary32 (float_of_size 0) x = float_of_size 0"
  using assms by (simp add: float_of_size_0 fmul_zero_left)

lemma numTiles_nonneg:
  assumes "nonneg_float x" "is_finite (fmul binary32 (float_of_size a) x)"
  shows "is_format binary32 (fmul binary32 (float_of_size a) x)"
    and "\<not> sign (fmul binary32 (float_of_size a) x)"
proof -
  show "is_format binary32 (fmul binary32 (float_of_size a) x)"
    by (simp add: fmul_is_format)
  have "is_finite (float_of_size a)" "\<not> sign (float_of_size a)"
    using float_of_size_cases [of a] by auto
  with assms(1) show "\<not> sign (fmul binary32 (float_of_size a) x)"
    by (simp add: sign_fmul nonneg_float_def)
qed

lemma CUGranularity_ceil_float:
  "CUGranularity_eval ceil_float G v p = map_sum id G (WavesPerSIMD_eval ceil_float v p)"
  by (simp add: CUGranularity_eval_def WavesPerSIMD_eval_def tilesPerCu_ceil_float Let_def
      split: sum.split)

text \<open>A significand of at most 53 bits with an exponent in the normal range of
  \<^verbatim>\<open>double\<close> is not rounded there.\<close>

lemma rnd_binary64_exact:
  assumes a: "0 < a" "a < 2 ^ 53" and e: "- 1021 \<le> e" "e \<le> 971"
  obtains j where "rnd binary64 s a e = Fin s (a * 2 ^ j) (e - int j)"
proof -
  define j where "j = 53 - bitlength a"
  have le: "bitlength a \<le> 53" using a(2) by (rule bitlength_le)
  then have bl: "bitlength (a * 2 ^ j) = 53"
    using a(1) by (simp add: bitlength_mult_pow j_def)
  have pos: "0 < a * 2 ^ j" using a(1) by simp
  from bitlength_bounds [OF pos] have b: "2 ^ 52 \<le> a * 2 ^ j" "a * 2 ^ j < 2 ^ 53"
    by (simp_all add: bl)
  have "j \<le> 52" using bitlength_pos [OF a(1)] by (simp add: j_def)
  with e b have "canonical binary64 (a * 2 ^ j) (e - int j)"
    by (simp add: canonical_def)
  from rnd_exact_up [OF wf_binary64 a(1) this, of s]
  have "rnd binary64 s a e = Fin s (a * 2 ^ j) (e - int j)" by simp
  then show ?thesis by (rule that)
qed

lemma fmul_NaN_right: "fmul f x NaN = NaN"
  by (cases x) simp_all

text \<open>The product of two \<^verbatim>\<open>float\<close>s, taken in \<^verbatim>\<open>double\<close> and stored in a \<^verbatim>\<open>float\<close>, is
  their \<^verbatim>\<open>float\<close> product: the exact product has at most 48 bits.\<close>

lemma fmul_via_double:
  assumes x: "is_format binary32 x" and y: "is_format binary32 y"
  shows "cvt binary32 (fmul binary64 (cvt binary64 x) (cvt binary64 y)) = fmul binary32 x y"
proof -
  have wide: "\<exists>j. rnd binary64 s m e = Fin s (m * 2 ^ j) (e - int j)"
    if "canonical binary32 m e" "0 < m" for s m e
  proof -
    from that have "m < 2 ^ 53" "- 1021 \<le> e" "e \<le> 971"
      by (simp_all add: canonical_def)
    with that(2) show ?thesis by (meson rnd_binary64_exact)
  qed
  show ?thesis
  proof (cases x)
    case fx: (Fin s m e)
    show ?thesis
    proof (cases y)
      case fy: (Fin t n d)
      from x y fx fy have c: "canonical binary32 m e" "canonical binary32 n d" by simp_all
      show ?thesis
      proof (cases "m = 0 \<or> n = 0")
        case True
        have fin: "\<exists>k i. rnd binary64 u a b = Fin u k i" if "canonical binary32 a b" for u a b
        proof (cases "a = 0")
          case True
          then show ?thesis by simp
        next
          case False
          with wide [OF that, of u] show ?thesis by auto
        qed
        from fin [OF c(1), of s] obtain k1 i1 where r1: "rnd binary64 s m e = Fin s k1 i1" by blast
        from fin [OF c(2), of t] obtain k2 i2 where r2: "rnd binary64 t n d = Fin t k2 i2" by blast
        from True show ?thesis
        proof
          assume "m = 0"
          then show ?thesis using r2 by (simp add: fx fy)
        next
          assume "n = 0"
          then show ?thesis using r1 by (simp add: fx fy)
        qed
      next
        case False
        then have pos: "0 < m" "0 < n" by simp_all
        from wide [OF c(1) pos(1)] obtain j
          where j: "rnd binary64 s m e = Fin s (m * 2 ^ j) (e - int j)" by blast
        from wide [OF c(2) pos(2)] obtain i
          where i: "rnd binary64 t n d = Fin t (n * 2 ^ i) (d - int i)" by blast
        have "m * 2 ^ j * (n * 2 ^ i) = m * n * 2 ^ (j + i)"
          by (simp add: power_add)
        moreover have "e - int j + (d - int i) = e + d - int (j + i)" by simp
        ultimately have prod: "rnd binary64 (s \<noteq> t) (m * 2 ^ j * (n * 2 ^ i)) (e - int j + (d - int i))
            = rnd binary64 (s \<noteq> t) (m * n) (e + d)"
          by (simp only: rnd_scale)
        from c have "m < 2 ^ 24" "n < 2 ^ 24" by (simp_all add: canonical_def)
        then have "m * n < 2 ^ 24 * 2 ^ 24" by (rule mult_strict_mono) simp_all
        then have mn: "m * n < 2 ^ 53" by simp
        from c have "- 1021 \<le> e + d" "e + d \<le> 971" by (simp_all add: canonical_def)
        with pos mn obtain l
          where l: "rnd binary64 (s \<noteq> t) (m * n) (e + d) = Fin (s \<noteq> t) (m * n * 2 ^ l) (e + d - int l)"
          using rnd_binary64_exact [of "m * n" "e + d" "s \<noteq> t"] by auto
        show ?thesis
          unfolding fx fy cvt.simps j i fmul.simps prod l by (rule rnd_scale)
      qed
    next
      case (Inf t)
      show ?thesis
      proof (cases "m = 0")
        case True
        then show ?thesis by (simp add: fx Inf)
      next
        case False
        with x fx have "canonical binary32 m e" "0 < m" by simp_all
        from wide [OF this] obtain j
          where "rnd binary64 s m e = Fin s (m * 2 ^ j) (e - int j)" by blast
        with False show ?thesis by (simp add: fx Inf)
      qed
    qed (simp add: fx fmul_NaN_right)
  next
    case ix: (Inf s)
    show ?thesis
    proof (cases y)
      case (Fin t n d)
      show ?thesis
      proof (cases "n = 0")
        case True
        then show ?thesis by (simp add: ix Fin)
      next
        case False
        with y Fin have "canonical binary32 n d" "0 < n" by simp_all
        from wide [OF this] obtain i
          where "rnd binary64 t n d = Fin t (n * 2 ^ i) (d - int i)" by blast
        with False show ?thesis by (simp add: ix Fin)
      qed
    qed (simp_all add: ix)
  qed simp
qed

lemma fmul_binary64_NumBatches:
  assumes "is_format binary64 y"
  shows "fmul binary64 (cvt binary64 NumBatches) y = y"
proof -
  have one64: "cvt binary64 NumBatches = Fin False 4503599627370496 (- 52)"
    by (simp add: float_eval NumBatches_def)
  show ?thesis
  proof (cases y)
    case (Fin u k j)
    with assms have "canonical binary64 k j" by simp
    from rnd_canonical [OF wf_binary64 this, of u 52]
    show ?thesis by (simp add: one64 Fin mult.commute)
  qed (simp_all add: one64)
qed

text \<open>With the \<^verbatim>\<open>double\<close> overload \<open>tilesPerCu\<close> is the product of \<open>totalTiles\<close> and the
  scale whenever the product of the two ceilings loses nothing when it is stored in a \<^verbatim>\<open>float\<close>.\<close>

lemma tilesPerCu_ceil_double:
  assumes d: "is_format binary32 d"
    and t: "exactly_float (fmul binary64 (fceil binary64 (cvt binary64 m))
              (fceil binary64 (cvt binary64 n)))"
  shows "tilesPerCu ceil_double m n d = fmul binary32 (totalTiles ceil_double m n) d"
proof -
  define t where "t = fmul binary64 (fceil binary64 (cvt binary64 m)) (fceil binary64 (cvt binary64 n))"
  have "tilesPerCu ceil_double m n d = cvt binary32 (fmul binary64 t (cvt binary64 d))"
    by (simp add: tilesPerCu_def t_def fmul_binary64_NumBatches fceil_is_format
        del: fceil.simps cvt.simps)
  also have "t = cvt binary64 (cvt binary32 t)"
    using t by (simp add: exactly_float_def t_def)
  also have "cvt binary32 (fmul binary64 (cvt binary64 (cvt binary32 t)) (cvt binary64 d))
      = fmul binary32 (cvt binary32 t) d"
    using d by (intro fmul_via_double) (simp_all add: cvt_is_format)
  finally show ?thesis by (simp add: totalTiles_def t_def)
qed

lemma CUGranularity_ceil_double:
  assumes "freeSizeA p 0 = Inr a" "freeSizeB p 0 = Inr b" "is_format binary32 (devSolScale v)"
    "exactly_float
       (fmul binary64
          (fceil binary64 (cvt binary64 (fmul binary32 (float_of_size a) (mt0_scale v))))
          (fceil binary64 (cvt binary64 (fmul binary32 (float_of_size b) (mt1_scale v)))))"
  shows "CUGranularity_eval ceil_double G v p = map_sum id G (WavesPerSIMD_eval ceil_double v p)"
  using assms
  by (simp add: CUGranularity_eval_def WavesPerSIMD_eval_def tilesPerCu_ceil_double Let_def)

lemma CUGranularity_accessor_failure:
  assumes "freeSizeA p 0 = Inl err \<or> freeSizeB p 0 = Inl err"
  shows "CUGranularity_eval ovl G v p = map_sum id G (WavesPerSIMD_eval ovl v p)"
  using assms
  by (auto simp: CUGranularity_eval_def WavesPerSIMD_eval_def Let_def split: sum.split)

text \<open>A step function with the two values \<open>1 / 2\<close> and \<open>12589056 * 2 ^ - 24\<close> is within
  the contract.\<close>

lemma step_GranularityFn_contract:
  "GranularityFn_contract
     (\<lambda>x. if float_less x (Fin False 12589057 (- 24))
          then Fin False 8388608 (- 24) else Fin False 12589056 (- 24))"
proof -
  have mono: "float_le (if float_less x t then lo else hi) (if float_less y t then lo else hi)"
    if "float_le x y" "float_le lo lo" "float_le lo hi" "float_le hi hi" for x y t lo hi
    using that by (auto simp: float_le_def float_less_def split: option.splits)
  have v: "float_le (Fin False 8388608 (- 24)) (Fin False 8388608 (- 24))"
    "float_le (Fin False 8388608 (- 24)) (Fin False 12589056 (- 24))"
    "float_le (Fin False 12589056 (- 24)) (Fin False 12589056 (- 24))"
    "float_less (float_of_nat 0) (Fin False 8388608 (- 24))"
    "float_less (float_of_nat 0) (Fin False 12589056 (- 24))"
    "float_le (Fin False 8388608 (- 24)) (float_of_nat 1)"
    "float_le (Fin False 12589056 (- 24)) (float_of_nat 1)"
    "canonical binary32 8388608 (- 24)"
    "canonical binary32 12589056 (- 24)"
    by (simp_all add: float_le_def float_less_def float_eval canonical_def)
  show ?thesis
    unfolding GranularityFn_contract_def
    by (intro conjI allI impI mono) (simp_all add: v del: One_nat_def)
qed

section \<open>Type names\<close>

text \<open>
  Claim C7. The type names of the seven feature kinds are pairwise distinct, and the
  type name of a feature is the name of its kind, whatever index or value the instance
  is configured with.
\<close>

theorem Type_names_distinct_and_stable:
  "distinct [FreeSizeA_Type, FreeSizeB_Type, BoundSize_Type, Tile0Granularity_Type,
     Tile1Granularity_Type, CUGranularity_Type, WavesPerSIMD_Type]
   \<and> Type (FreeSizeA i) = FreeSizeA_Type \<and> Type (FreeSizeB i) = FreeSizeB_Type
   \<and> Type (BoundSize i) = BoundSize_Type
   \<and> Type (Tile0Granularity x) = Tile0Granularity_Type
   \<and> Type (Tile1Granularity x) = Tile1Granularity_Type
   \<and> Type (CUGranularity v) = CUGranularity_Type
   \<and> Type (WavesPerSIMD v) = WavesPerSIMD_Type"
  by (simp add: Type_defs)

theorem Type_names_witness:
  "Type (FreeSizeA 0) \<noteq> Type (FreeSizeB 0) \<and> Type (FreeSizeA 0) = Type (FreeSizeA 7)
   \<and> Type (Tile0Granularity NaN) \<noteq> Type (Tile1Granularity NaN)"
  using Type_names_distinct_and_stable
      [of 0 NaN "\<lparr>mt0_scale = NaN, mt1_scale = NaN, devSolScale = NaN\<rparr>"]
    Type_names_distinct_and_stable
      [of 7 NaN "\<lparr>mt0_scale = NaN, mt1_scale = NaN, devSolScale = NaN\<rparr>"]
  by simp

section \<open>Indexed features\<close>

text \<open>
  Claim C8. The indexed features \<open>FreeSizeA\<close>, \<open>FreeSizeB\<close> and \<open>BoundSize\<close> check no
  index themselves: for every index the evaluation fails exactly when the problem's
  accessor fails at that index, and then with the accessor's own error. So an
  out-of-range failure is passed on unchanged, and where the accessor returns a size
  the evaluation returns a value.
\<close>

theorem indexed_features_propagate_accessor_failure:
  "(FreeSizeA_eval i p = Inl err \<longleftrightarrow> freeSizeA p i = Inl err)
   \<and> (FreeSizeB_eval i p = Inl err \<longleftrightarrow> freeSizeB p i = Inl err)
   \<and> (BoundSize_eval i p = Inl err \<longleftrightarrow> boundSize p i = Inl err)"
  by (simp add: FreeSizeA_eval_def FreeSizeB_eval_def BoundSize_eval_def split: sum.split)

theorem indexed_features_propagate_witness:
  "FreeSizeA_eval 1 (problem_of_sizes [5] [3] [7]) = Inl OutOfBounds
   \<and> FreeSizeB_eval 2 (problem_of_sizes [5] [3] [7]) = Inl OutOfBounds
   \<and> BoundSize_eval 18446744073709551615 (problem_of_sizes [5] [3] [7]) = Inl OutOfBounds
   \<and> FreeSizeA_eval 0 (problem_of_sizes [5] [3] [7]) \<noteq> Inl OutOfBounds"
  using indexed_features_propagate_accessor_failure
      [of 1 "problem_of_sizes [5] [3] [7]" OutOfBounds]
    indexed_features_propagate_accessor_failure
      [of 2 "problem_of_sizes [5] [3] [7]" OutOfBounds]
    indexed_features_propagate_accessor_failure
      [of 18446744073709551615 "problem_of_sizes [5] [3] [7]" OutOfBounds]
    indexed_features_propagate_accessor_failure
      [of 0 "problem_of_sizes [5] [3] [7]" OutOfBounds]
  by (simp add: problem_eval)

text \<open>
  Claim C4. Where the problem's accessor is defined at index \<open>i\<close>, \<open>FreeSizeA\<close>,
  \<open>FreeSizeB\<close> and \<open>BoundSize\<close> configured with \<open>i\<close> return the conversion to
  \<^verbatim>\<open>float\<close> of \<open>freeSizeA(i)\<close>, \<open>freeSizeB(i)\<close> and \<open>boundSize(i)\<close>, and nothing else is
  computed.
\<close>

theorem indexed_features_return_float_of_size:
  "(freeSizeA p i = Inr a \<longrightarrow> FreeSizeA_eval i p = Inr (float_of_size a))
   \<and> (freeSizeB p i = Inr b \<longrightarrow> FreeSizeB_eval i p = Inr (float_of_size b))
   \<and> (boundSize p i = Inr k \<longrightarrow> BoundSize_eval i p = Inr (float_of_size k))"
  by (simp add: FreeSizeA_eval_def FreeSizeB_eval_def BoundSize_eval_def)

text \<open>
  At the sizes 5, 3 and \<open>2 ^ 24 + 1\<close>: the first two are exact, the third is rounded to
  \<open>2 ^ 24\<close>, as the conversion to a 24-bit significand does.
\<close>

theorem indexed_features_witness:
  "FreeSizeA_eval 0 (problem_of_sizes [5] [3] [16777217]) = Inr (Fin False 10485760 (- 21))
   \<and> FreeSizeB_eval 0 (problem_of_sizes [5] [3] [16777217]) = Inr (Fin False 12582912 (- 22))
   \<and> BoundSize_eval 0 (problem_of_sizes [5] [3] [16777217]) = Inr (Fin False 8388608 1)"
  using indexed_features_return_float_of_size
    [of "problem_of_sizes [5] [3] [16777217]" 0 5 3 16777217]
  by (simp add: model_eval) (simp_all add: float_eval)

section \<open>What the derived features read\<close>

text \<open>
  Claim C10. \<open>Tile0Granularity\<close>, \<open>Tile1Granularity\<close>, \<open>CUGranularity\<close> and
  \<open>WavesPerSIMD\<close> depend on the problem only through \<open>freeSizeA(0)\<close> and
  \<open>freeSizeB(0)\<close>: on two problems that agree there, each feature with the same
  configuration returns the same result, whatever the bound sizes, the free sizes at
  higher indices and the other attributes of the two problems are.
\<close>

theorem derived_features_read_only_first_free_sizes:
  assumes "freeSizeA p1 0 = freeSizeA p2 0" and "freeSizeB p1 0 = freeSizeB p2 0"
  shows "Tile0Granularity_eval G x p1 = Tile0Granularity_eval G x p2
    \<and> Tile1Granularity_eval G x p1 = Tile1Granularity_eval G x p2
    \<and> CUGranularity_eval ovl G v p1 = CUGranularity_eval ovl G v p2
    \<and> WavesPerSIMD_eval ovl v p1 = WavesPerSIMD_eval ovl v p2"
  using assms
  by (simp add: Tile0Granularity_eval_def Tile1Granularity_eval_def CUGranularity_eval_def
      WavesPerSIMD_eval_def Let_def split: sum.split)

theorem derived_features_witness:
  "CUGranularity_eval ceil_double (\<lambda>x. x)
      \<lparr>mt0_scale = float_of_nat 1, mt1_scale = float_of_nat 1, devSolScale = float_of_nat 1\<rparr>
      (problem_of_sizes [5, 9] [3] [7])
   = CUGranularity_eval ceil_double (\<lambda>x. x)
      \<lparr>mt0_scale = float_of_nat 1, mt1_scale = float_of_nat 1, devSolScale = float_of_nat 1\<rparr>
      (problem_of_sizes [5] [3, 4] [8, 1])"
  using derived_features_read_only_first_free_sizes
    [of "problem_of_sizes [5, 9] [3] [7]" "problem_of_sizes [5] [3, 4] [8, 1]"
        "\<lambda>x. x" "float_of_nat 1" ceil_double
        "\<lparr>mt0_scale = float_of_nat 1, mt1_scale = float_of_nat 1, devSolScale = float_of_nat 1\<rparr>"]
  by (simp add: problem_eval)

section \<open>Purity\<close>

text \<open>
  Claim C6. Each of the seven \<^verbatim>\<open>operator()\<close> bodies, run on a configured feature and a
  problem, leaves the feature and the problem as they were: the bodies read the data
  member and call the accessors of the problem, and assign to neither. Hence evaluating
  the feature again gives the same result, and so does evaluating it after any other
  feature has been evaluated against the problem: no state is kept from one call to the
  next. The result of the call is the value that \<open>evaluate\<close> gives as a function of the
  configuration and the problem.
\<close>

theorem call_is_pure:
  "snd (call ovl G (feature, problem)) = (feature, problem)
   \<and> fst (call ovl G (snd (call ovl G (feature, problem)))) = fst (call ovl G (feature, problem))
   \<and> fst (call ovl G (feature, snd (snd (call ovl G (other, problem)))))
       = fst (call ovl G (feature, problem))
   \<and> fst (call ovl G (feature, problem)) = evaluate ovl G feature problem"
proof -
  have unchanged: "snd (call ovl G (f, problem)) = (f, problem)" for f
    by (cases f) (simp_all add: body_defs Let_def split: sum.split)
  have result: "fst (call ovl G (feature, problem)) = evaluate ovl G feature problem"
    by (cases feature)
      (simp_all add: body_defs Let_def FreeSizeA_eval_def FreeSizeB_eval_def
        BoundSize_eval_def Tile0Granularity_eval_def Tile1Granularity_eval_def
        CUGranularity_eval_def WavesPerSIMD_eval_def split: sum.split)
  show ?thesis
    by (simp add: unchanged result)
qed

text \<open>At the feature \<open>FreeSizeA\<close> with index 0, also after a call of \<open>BoundSize\<close> with
  the index 3, which fails.\<close>

theorem call_is_pure_witness:
  "snd (call ceil_float (\<lambda>x. x) (FreeSizeA 0, problem_of_sizes [5] [3] [7]))
     = (FreeSizeA 0, problem_of_sizes [5] [3] [7])
   \<and> fst (call ceil_float (\<lambda>x. x)
          (snd (call ceil_float (\<lambda>x. x) (FreeSizeA 0, problem_of_sizes [5] [3] [7]))))
     = Inr (Fin False 10485760 (- 21))
   \<and> fst (call ceil_float (\<lambda>x. x)
          (FreeSizeA 0,
           snd (snd (call ceil_float (\<lambda>x. x) (BoundSize 3, problem_of_sizes [5] [3] [7])))))
     = Inr (Fin False 10485760 (- 21))"
  using call_is_pure
    [of ceil_float "\<lambda>x. x" "FreeSizeA 0" "problem_of_sizes [5] [3] [7]" "BoundSize 3"]
  by (simp add: body_defs model_eval) (simp_all add: float_eval)

text \<open>
  The property is one of these bodies, not of every member function: a body that
  assigned to its data member before the same steps would leave another feature behind.
\<close>

lemma assigning_body_changes_the_feature:
  "index' \<noteq> index \<Longrightarrow>
   snd (on_object FreeSizeA (bnd (write_member index') (\<lambda>u. FreeSizeA_call)) index problem)
     \<noteq> (FreeSizeA index, problem)"
  by (simp add: body_defs write_member_def split: sum.split)

section \<open>Tile granularity\<close>

text \<open>
  Claim C3, as the code has it. With \<open>freeSizeA(0)\<close> defined, \<open>Tile0Granularity\<close>
  returns \<open>computeGranularity\<close> of the single-precision product of the size and the
  stored \<open>value\<close>; \<open>Tile1Granularity\<close> does the same with \<open>freeSizeB(0)\<close>. Where the
  value is the reciprocal \<open>1 / mt0\<close> of a tile extent that is a power of two, up to
  \<open>2 ^ 126\<close>, that product is exactly the single-precision quotient \<open>M / mt0\<close>, for
  every size \<open>M\<close>.
\<close>

theorem TileGranularity_formula:
  "(freeSizeA p 0 = Inr a \<longrightarrow>
      Tile0Granularity_eval G x p = Inr (G (fmul binary32 (float_of_size a) x)))
   \<and> (freeSizeB p 0 = Inr b \<longrightarrow>
      Tile1Granularity_eval G x p = Inr (G (fmul binary32 (float_of_size b) x)))
   \<and> (k \<le> 126 \<and> freeSizeA p 0 = Inr a \<longrightarrow>
      Tile0Granularity_eval G (fdiv binary32 (float_of_nat 1) (float_of_nat (2 ^ k))) p
        = Inr (G (fdiv binary32 (float_of_size a) (float_of_nat (2 ^ k)))))
   \<and> (k \<le> 126 \<and> freeSizeB p 0 = Inr b \<longrightarrow>
      Tile1Granularity_eval G (fdiv binary32 (float_of_nat 1) (float_of_nat (2 ^ k))) p
        = Inr (G (fdiv binary32 (float_of_size b) (float_of_nat (2 ^ k)))))"
  by (simp add: Tile0Granularity_eval_def Tile1Granularity_eval_def fmul_reciprocal_pow2
      del: One_nat_def)

text \<open>At sizes 100 and 40 and a tile extent of 64: the results are \<open>100 / 64\<close> and
  \<open>40 / 64\<close>.\<close>

theorem TileGranularity_formula_witness:
  "Tile0Granularity_eval (\<lambda>x. x) (fdiv binary32 (float_of_nat 1) (float_of_nat 64))
      (problem_of_sizes [100] [40] [])
     = Inr (Fin False 13107200 (- 23))
   \<and> Tile1Granularity_eval (\<lambda>x. x) (fdiv binary32 (float_of_nat 1) (float_of_nat 64))
      (problem_of_sizes [100] [40] [])
     = Inr (Fin False 10485760 (- 24))"
  using TileGranularity_formula
    [of "problem_of_sizes [100] [40] []" 100 "\<lambda>x. x"
        "fdiv binary32 (float_of_nat 1) (float_of_nat 64)" 40 6]
  by (simp add: model_eval) (simp_all add: float_eval)

text \<open>
  For a tile extent that is no power of two the claim as written fails: with
  \<open>mt0 = 3\<close> and \<open>M = 5\<close> the product of 5 and the \<^verbatim>\<open>float\<close> nearest to \<open>1 / 3\<close> is
  \<open>13981014 * 2 ^ - 23\<close>, one unit in the last place above the quotient \<open>5 / 3\<close>,
  which is \<open>13981013 * 2 ^ - 23\<close>.
\<close>

theorem TileGranularity_reciprocal_counterexample:
  "Tile0Granularity_eval (\<lambda>x. x) (fdiv binary32 (float_of_nat 1) (float_of_nat 3))
      (problem_of_sizes [5] [3] [])
     = Inr (Fin False 13981014 (- 23))
   \<and> fdiv binary32 (float_of_size 5) (float_of_nat 3) = Fin False 13981013 (- 23)
   \<and> Tile0Granularity_eval (\<lambda>x. x) (fdiv binary32 (float_of_nat 1) (float_of_nat 3))
      (problem_of_sizes [5] [3] [])
     \<noteq> Inr ((\<lambda>x. x) (fdiv binary32 (float_of_size 5) (float_of_nat 3)))"
  by (simp add: model_eval) (simp_all add: float_eval)

section \<open>Compute-unit granularity and waves per SIMD\<close>

text \<open>
  Claim C1. With the accessors defined at index 0, \<open>CUGranularity\<close> returns
  \<open>computeGranularity\<close> of \<open>1 * ceil (freeSizeA(0) * mt0_scale) * ceil (freeSizeB(0) *
  mt1_scale) * devSolScale\<close>, the ceiling taken of each tile count before the product,
  for either overload of \<^verbatim>\<open>ceil\<close>. For sizes 5 and 3 with the scales \<open>1 / 2\<close>, \<open>1 / 3\<close> and
  \<open>1 / 10\<close> (each the nearest \<^verbatim>\<open>float\<close>) the result is \<open>computeGranularity\<close> of the
  \<^verbatim>\<open>float\<close> nearest to \<open>3 / 10\<close>. For sizes 3 and 3 with both tile scales \<open>1 / 2\<close> and
  \<open>devSolScale = 1\<close> the count is \<open>2 * 2 = 4\<close>, where a ceiling of the product
  \<open>1.5 * 1.5\<close> would give 3.
\<close>

theorem CUGranularity_formula:
  "(freeSizeA p 0 = Inr a \<and> freeSizeB p 0 = Inr b \<longrightarrow>
      CUGranularity_eval ceil_float G v p =
        Inr (G (fmul binary32
                 (fmul binary32
                    (fmul binary32 (float_of_nat 1)
                       (fceil binary32 (fmul binary32 (float_of_size a) (mt0_scale v))))
                    (fceil binary32 (fmul binary32 (float_of_size b) (mt1_scale v))))
                 (devSolScale v)))
    \<and> CUGranularity_eval ceil_double G v p =
        Inr (G (cvt binary32
                 (fmul binary64
                    (fmul binary64
                       (fmul binary64 (cvt binary64 (float_of_nat 1))
                          (fceil binary64
                             (cvt binary64 (fmul binary32 (float_of_size a) (mt0_scale v)))))
                       (fceil binary64
                          (cvt binary64 (fmul binary32 (float_of_size b) (mt1_scale v)))))
                    (cvt binary64 (devSolScale v))))))
   \<and> CUGranularity_eval ovl G
        \<lparr>mt0_scale = fdiv binary32 (float_of_nat 1) (float_of_nat 2),
         mt1_scale = fdiv binary32 (float_of_nat 1) (float_of_nat 3),
         devSolScale = fdiv binary32 (float_of_nat 1) (float_of_nat 10)\<rparr>
        (problem_of_sizes [5] [3] ks)
      = Inr (G (fdiv binary32 (float_of_nat 3) (float_of_nat 10)))
   \<and> CUGranularity_eval ovl G
        \<lparr>mt0_scale = fdiv binary32 (float_of_nat 1) (float_of_nat 2),
         mt1_scale = fdiv binary32 (float_of_nat 1) (float_of_nat 2),
         devSolScale = float_of_nat 1\<rparr>
        (problem_of_sizes [3] [3] ks)
      = Inr (G (float_of_nat 4))"
proof (intro conjI impI)
  assume "freeSizeA p 0 = Inr a \<and> freeSizeB p 0 = Inr b"
  then show "CUGranularity_eval ceil_float G v p =
        Inr (G (fmul binary32
                 (fmul binary32
                    (fmul binary32 (float_of_nat 1)
                       (fceil binary32 (fmul binary32 (float_of_size a) (mt0_scale v))))
                    (fceil binary32 (fmul binary32 (float_of_size b) (mt1_scale v))))
                 (devSolScale v)))"
    by (simp add: CUGranularity_eval_def tilesPerCu_def NumBatches_def)
next
  assume "freeSizeA p 0 = Inr a \<and> freeSizeB p 0 = Inr b"
  then show "CUGranularity_eval ceil_double G v p =
        Inr (G (cvt binary32
                 (fmul binary64
                    (fmul binary64
                       (fmul binary64 (cvt binary64 (float_of_nat 1))
                          (fceil binary64
                             (cvt binary64 (fmul binary32 (float_of_size a) (mt0_scale v)))))
                       (fceil binary64
                          (cvt binary64 (fmul binary32 (float_of_size b) (mt1_scale v)))))
                    (cvt binary64 (devSolScale v)))))"
    by (simp add: CUGranularity_eval_def tilesPerCu_def NumBatches_def)
next
  show "CUGranularity_eval ovl G
        \<lparr>mt0_scale = fdiv binary32 (float_of_nat 1) (float_of_nat 2),
         mt1_scale = fdiv binary32 (float_of_nat 1) (float_of_nat 3),
         devSolScale = fdiv binary32 (float_of_nat 1) (float_of_nat 10)\<rparr>
        (problem_of_sizes [5] [3] ks)
      = Inr (G (fdiv binary32 (float_of_nat 3) (float_of_nat 10)))"
    by (cases ovl; simp add: model_eval) (simp_all add: float_eval)
next
  show "CUGranularity_eval ovl G
        \<lparr>mt0_scale = fdiv binary32 (float_of_nat 1) (float_of_nat 2),
         mt1_scale = fdiv binary32 (float_of_nat 1) (float_of_nat 2),
         devSolScale = float_of_nat 1\<rparr>
        (problem_of_sizes [3] [3] ks)
      = Inr (G (float_of_nat 4))"
    by (cases ovl; simp add: model_eval) (simp_all add: float_eval)
qed

theorem CUGranularity_formula_witness:
  "CUGranularity_eval ceil_float (\<lambda>x. x)
      \<lparr>mt0_scale = fdiv binary32 (float_of_nat 1) (float_of_nat 2),
       mt1_scale = fdiv binary32 (float_of_nat 1) (float_of_nat 3),
       devSolScale = fdiv binary32 (float_of_nat 1) (float_of_nat 10)\<rparr>
      (problem_of_sizes [5] [3] [7])
    = Inr (Fin False 10066330 (- 25))
   \<and> CUGranularity_eval ceil_double (\<lambda>x. x)
      \<lparr>mt0_scale = fdiv binary32 (float_of_nat 1) (float_of_nat 2),
       mt1_scale = fdiv binary32 (float_of_nat 1) (float_of_nat 3),
       devSolScale = fdiv binary32 (float_of_nat 1) (float_of_nat 10)\<rparr>
      (problem_of_sizes [5] [3] [7])
    = Inr (Fin False 10066330 (- 25))"
  using CUGranularity_formula
    [of "problem_of_sizes [5] [3] [7]" 5 3 "\<lambda>x. x"
        "\<lparr>mt0_scale = fdiv binary32 (float_of_nat 1) (float_of_nat 2),
          mt1_scale = fdiv binary32 (float_of_nat 1) (float_of_nat 3),
          devSolScale = fdiv binary32 (float_of_nat 1) (float_of_nat 10)\<rparr>"
        ceil_float "[7]"]
  by (simp add: model_eval) (simp_all add: float_eval)

text \<open>
  Claim C9, as the code has it. With both features configured with the same scale
  factors, \<open>CUGranularity\<close> is \<open>computeGranularity\<close> applied to the result of
  \<open>WavesPerSIMD\<close>: with the \<^verbatim>\<open>float\<close> overload of \<^verbatim>\<open>ceil\<close> on every problem (an accessor
  failure is the same failure in both); with the \<^verbatim>\<open>double\<close> overload on every problem
  where the double-precision product \<open>ceil (numTilesM) * ceil (numTilesN)\<close> is exactly a
  \<^verbatim>\<open>float\<close> (\<open>devSolScale\<close> being a value of the \<^verbatim>\<open>float\<close> format), and where an accessor
  fails.
\<close>

theorem CUGranularity_is_computeGranularity_of_WavesPerSIMD:
  "CUGranularity_eval ceil_float G v p = map_sum id G (WavesPerSIMD_eval ceil_float v p)
   \<and> (freeSizeA p 0 = Inr a \<and> freeSizeB p 0 = Inr b \<and> is_format binary32 (devSolScale v)
      \<and> exactly_float
          (fmul binary64
             (fceil binary64 (cvt binary64 (fmul binary32 (float_of_size a) (mt0_scale v))))
             (fceil binary64 (cvt binary64 (fmul binary32 (float_of_size b) (mt1_scale v)))))
      \<longrightarrow> CUGranularity_eval ceil_double G v p
            = map_sum id G (WavesPerSIMD_eval ceil_double v p))
   \<and> (freeSizeA p 0 = Inl err \<or> freeSizeB p 0 = Inl err
      \<longrightarrow> CUGranularity_eval ceil_double G v p
            = map_sum id G (WavesPerSIMD_eval ceil_double v p))"
proof (intro conjI impI)
  show "CUGranularity_eval ceil_float G v p = map_sum id G (WavesPerSIMD_eval ceil_float v p)"
    by (rule CUGranularity_ceil_float)
next
  assume "freeSizeA p 0 = Inr a \<and> freeSizeB p 0 = Inr b \<and> is_format binary32 (devSolScale v)
      \<and> exactly_float
          (fmul binary64
             (fceil binary64 (cvt binary64 (fmul binary32 (float_of_size a) (mt0_scale v))))
             (fceil binary64 (cvt binary64 (fmul binary32 (float_of_size b) (mt1_scale v)))))"
  then show "CUGranularity_eval ceil_double G v p
            = map_sum id G (WavesPerSIMD_eval ceil_double v p)"
    by (intro CUGranularity_ceil_double [of p a b]) simp_all
next
  assume "freeSizeA p 0 = Inl err \<or> freeSizeB p 0 = Inl err"
  then show "CUGranularity_eval ceil_double G v p
            = map_sum id G (WavesPerSIMD_eval ceil_double v p)"
    by (rule CUGranularity_accessor_failure)
qed

text \<open>At sizes 2000 and 3001 with the scales \<open>1 / 2\<close>, \<open>1 / 3\<close> and \<open>1 / 10\<close>: the product of
  the ceilings is \<open>1000 * 1001\<close>, a \<^verbatim>\<open>float\<close>, and both overloads give \<open>100100\<close>. On a
  problem without a second free size both features fail.\<close>

theorem CUGranularity_of_WavesPerSIMD_witness:
  "CUGranularity_eval ceil_float (\<lambda>x. x)
      \<lparr>mt0_scale = fdiv binary32 (float_of_nat 1) (float_of_nat 2),
       mt1_scale = fdiv binary32 (float_of_nat 1) (float_of_nat 3),
       devSolScale = fdiv binary32 (float_of_nat 1) (float_of_nat 10)\<rparr>
      (problem_of_sizes [2000] [3001] [])
    = Inr (Fin False 12812800 (- 7))
   \<and> exactly_float
        (fmul binary64
           (fceil binary64 (cvt binary64
              (fmul binary32 (float_of_size 2000) (fdiv binary32 (float_of_nat 1) (float_of_nat 2)))))
           (fceil binary64 (cvt binary64
              (fmul binary32 (float_of_size 3001) (fdiv binary32 (float_of_nat 1) (float_of_nat 3))))))
   \<and> CUGranularity_eval ceil_double (\<lambda>x. x)
      \<lparr>mt0_scale = fdiv binary32 (float_of_nat 1) (float_of_nat 2),
       mt1_scale = fdiv binary32 (float_of_nat 1) (float_of_nat 3),
       devSolScale = fdiv binary32 (float_of_nat 1) (float_of_nat 10)\<rparr>
      (problem_of_sizes [2000] [3001] [])
    = Inr (Fin False 12812800 (- 7))
   \<and> CUGranularity_eval ceil_double (\<lambda>x. x)
      \<lparr>mt0_scale = fdiv binary32 (float_of_nat 1) (float_of_nat 2),
       mt1_scale = fdiv binary32 (float_of_nat 1) (float_of_nat 3),
       devSolScale = fdiv binary32 (float_of_nat 1) (float_of_nat 10)\<rparr>
      (problem_of_sizes [2000] [] [])
    = Inl OutOfBounds"
  using CUGranularity_is_computeGranularity_of_WavesPerSIMD
    [of "\<lambda>x. x"
        "\<lparr>mt0_scale = fdiv binary32 (float_of_nat 1) (float_of_nat 2),
          mt1_scale = fdiv binary32 (float_of_nat 1) (float_of_nat 3),
          devSolScale = fdiv binary32 (float_of_nat 1) (float_of_nat 10)\<rparr>"
        "problem_of_sizes [2000] [3001] []" 2000 3001]
    CUGranularity_is_computeGranularity_of_WavesPerSIMD
    [of "\<lambda>x. x"
        "\<lparr>mt0_scale = fdiv binary32 (float_of_nat 1) (float_of_nat 2),
          mt1_scale = fdiv binary32 (float_of_nat 1) (float_of_nat 3),
          devSolScale = fdiv binary32 (float_of_nat 1) (float_of_nat 10)\<rparr>"
        "problem_of_sizes [2000] [] []" 2000 0 OutOfBounds]
  by (simp add: model_eval exactly_float_def) (simp_all add: float_eval)

text \<open>
  With the \<^verbatim>\<open>double\<close> overload and a product that is no \<^verbatim>\<open>float\<close> the two differ. At
  sizes 4097 and 4097, tile scales 1 and \<open>devSolScale = 3 / 64\<close>: the product \<open>4097 * 4097 = 16785409\<close> is exact in double
  precision, so \<open>CUGranularity\<close> rounds \<open>16785409 * 3 / 64 = 786816.046875\<close> once, to
  \<open>786816.0625\<close>; \<open>WavesPerSIMD\<close> first stores the product in a \<^verbatim>\<open>float\<close>, as
  \<open>16785408\<close>, and returns \<open>786816\<close>.
\<close>

theorem CUGranularity_ceil_double_counterexample:
  "CUGranularity_eval ceil_double (\<lambda>x. x)
      \<lparr>mt0_scale = float_of_nat 1, mt1_scale = float_of_nat 1,
       devSolScale = fdiv binary32 (float_of_nat 3) (float_of_nat 64)\<rparr>
      (problem_of_sizes [4097] [4097] [])
    = Inr (Fin False 12589057 (- 4))
   \<and> map_sum id (\<lambda>x. x)
       (WavesPerSIMD_eval ceil_double
         \<lparr>mt0_scale = float_of_nat 1, mt1_scale = float_of_nat 1,
          devSolScale = fdiv binary32 (float_of_nat 3) (float_of_nat 64)\<rparr>
         (problem_of_sizes [4097] [4097] []))
    = Inr (Fin False 12589056 (- 4))
   \<and> CUGranularity_eval ceil_double (\<lambda>x. x)
      \<lparr>mt0_scale = float_of_nat 1, mt1_scale = float_of_nat 1,
       devSolScale = fdiv binary32 (float_of_nat 3) (float_of_nat 64)\<rparr>
      (problem_of_sizes [4097] [4097] [])
    \<noteq> map_sum id (\<lambda>x. x)
       (WavesPerSIMD_eval ceil_double
         \<lparr>mt0_scale = float_of_nat 1, mt1_scale = float_of_nat 1,
          devSolScale = fdiv binary32 (float_of_nat 3) (float_of_nat 64)\<rparr>
         (problem_of_sizes [4097] [4097] []))"
  by (simp add: model_eval) (simp_all add: float_eval)

text \<open>
  Claim C2, as the code has it. With the accessors defined at index 0, \<open>WavesPerSIMD\<close>
  returns \<open>ceil (freeSizeA(0) * mt0_scale) * ceil (freeSizeB(0) * mt1_scale) *
  devSolScale\<close> itself, for either overload of \<^verbatim>\<open>ceil\<close>: \<open>computeGranularity\<close> is no
  part of it. At sizes 5 and 3 with the scales \<open>1 / 2\<close>, \<open>1 / 3\<close> and \<open>1 / 10\<close> that is the
  \<^verbatim>\<open>float\<close> nearest to \<open>3 / 10\<close>. \<open>CUGranularity\<close> returns \<open>computeGranularity\<close> of the
  value \<open>WavesPerSIMD\<close> returns, so that the two features differ whenever
  \<open>computeGranularity\<close> is not the identity on that value: with the \<^verbatim>\<open>float\<close> overload
  always, and with the \<^verbatim>\<open>double\<close> overload where the double-precision product
  \<open>ceil (numTilesM) * ceil (numTilesN)\<close> is exactly a \<^verbatim>\<open>float\<close> (\<open>devSolScale\<close> being a value
  of the \<^verbatim>\<open>float\<close> format).
\<close>

theorem WavesPerSIMD_formula:
  "(freeSizeA p 0 = Inr a \<and> freeSizeB p 0 = Inr b \<longrightarrow>
      WavesPerSIMD_eval ceil_float v p =
        Inr (fmul binary32
               (fmul binary32
                  (fceil binary32 (fmul binary32 (float_of_size a) (mt0_scale v)))
                  (fceil binary32 (fmul binary32 (float_of_size b) (mt1_scale v))))
               (devSolScale v))
    \<and> WavesPerSIMD_eval ceil_double v p =
        Inr (fmul binary32
               (cvt binary32
                  (fmul binary64
                     (fceil binary64
                        (cvt binary64 (fmul binary32 (float_of_size a) (mt0_scale v))))
                     (fceil binary64
                        (cvt binary64 (fmul binary32 (float_of_size b) (mt1_scale v))))))
               (devSolScale v)))
   \<and> WavesPerSIMD_eval ovl
        \<lparr>mt0_scale = fdiv binary32 (float_of_nat 1) (float_of_nat 2),
         mt1_scale = fdiv binary32 (float_of_nat 1) (float_of_nat 3),
         devSolScale = fdiv binary32 (float_of_nat 1) (float_of_nat 10)\<rparr>
        (problem_of_sizes [5] [3] ks)
      = Inr (fdiv binary32 (float_of_nat 3) (float_of_nat 10))
   \<and> (WavesPerSIMD_eval ceil_float v p = Inr w \<longrightarrow>
        CUGranularity_eval ceil_float G v p = Inr (G w)
        \<and> (G w \<noteq> w \<longrightarrow>
             CUGranularity_eval ceil_float G v p \<noteq> WavesPerSIMD_eval ceil_float v p))
   \<and> (freeSizeA p 0 = Inr a \<and> freeSizeB p 0 = Inr b \<and> is_format binary32 (devSolScale v)
      \<and> exactly_float
          (fmul binary64
             (fceil binary64 (cvt binary64 (fmul binary32 (float_of_size a) (mt0_scale v))))
             (fceil binary64 (cvt binary64 (fmul binary32 (float_of_size b) (mt1_scale v)))))
      \<and> WavesPerSIMD_eval ceil_double v p = Inr w' \<longrightarrow>
        CUGranularity_eval ceil_double G v p = Inr (G w')
        \<and> (G w' \<noteq> w' \<longrightarrow>
             CUGranularity_eval ceil_double G v p \<noteq> WavesPerSIMD_eval ceil_double v p))"
proof (intro conjI impI)
  assume "freeSizeA p 0 = Inr a \<and> freeSizeB p 0 = Inr b"
  then show "WavesPerSIMD_eval ceil_float v p =
        Inr (fmul binary32
               (fmul binary32
                  (fceil binary32 (fmul binary32 (float_of_size a) (mt0_scale v)))
                  (fceil binary32 (fmul binary32 (float_of_size b) (mt1_scale v))))
               (devSolScale v))"
    by (simp add: WavesPerSIMD_eval_def totalTiles_def)
next
  assume "freeSizeA p 0 = Inr a \<and> freeSizeB p 0 = Inr b"
  then show "WavesPerSIMD_eval ceil_double v p =
        Inr (fmul binary32
               (cvt binary32
                  (fmul binary64
                     (fceil binary64
                        (cvt binary64 (fmul binary32 (float_of_size a) (mt0_scale v))))
                     (fceil binary64
                        (cvt binary64 (fmul binary32 (float_of_size b) (mt1_scale v))))))
               (devSolScale v))"
    by (simp add: WavesPerSIMD_eval_def totalTiles_def)
next
  show "WavesPerSIMD_eval ovl
        \<lparr>mt0_scale = fdiv binary32 (float_of_nat 1) (float_of_nat 2),
         mt1_scale = fdiv binary32 (float_of_nat 1) (float_of_nat 3),
         devSolScale = fdiv binary32 (float_of_nat 1) (float_of_nat 10)\<rparr>
        (problem_of_sizes [5] [3] ks)
      = Inr (fdiv binary32 (float_of_nat 3) (float_of_nat 10))"
    by (cases ovl; simp add: model_eval) (simp_all add: float_eval)
next
  assume w: "WavesPerSIMD_eval ceil_float v p = Inr w"
  then show "CUGranularity_eval ceil_float G v p = Inr (G w)"
    by (simp add: CUGranularity_ceil_float)
  assume "G w \<noteq> w"
  with w show "CUGranularity_eval ceil_float G v p \<noteq> WavesPerSIMD_eval ceil_float v p"
    by (simp add: CUGranularity_ceil_float)
next
  assume h: "freeSizeA p 0 = Inr a \<and> freeSizeB p 0 = Inr b \<and> is_format binary32 (devSolScale v)
      \<and> exactly_float
          (fmul binary64
             (fceil binary64 (cvt binary64 (fmul binary32 (float_of_size a) (mt0_scale v))))
             (fceil binary64 (cvt binary64 (fmul binary32 (float_of_size b) (mt1_scale v)))))
      \<and> WavesPerSIMD_eval ceil_double v p = Inr w'"
  then have eq: "CUGranularity_eval ceil_double G v p
      = map_sum id G (WavesPerSIMD_eval ceil_double v p)"
    by (intro CUGranularity_ceil_double [of p a b]) simp_all
  with h show "CUGranularity_eval ceil_double G v p = Inr (G w')" by simp
  assume "G w' \<noteq> w'"
  with h eq show "CUGranularity_eval ceil_double G v p \<noteq> WavesPerSIMD_eval ceil_double v p"
    by simp
qed

text \<open>At sizes 5 and 3 with the scales \<open>1 / 2\<close>, \<open>1 / 3\<close> and \<open>1 / 10\<close>, where the product of
  the ceilings is 3, and a \<open>computeGranularity\<close> that is 1 everywhere.\<close>

theorem WavesPerSIMD_formula_witness:
  "WavesPerSIMD_eval ceil_float
      \<lparr>mt0_scale = fdiv binary32 (float_of_nat 1) (float_of_nat 2),
       mt1_scale = fdiv binary32 (float_of_nat 1) (float_of_nat 3),
       devSolScale = fdiv binary32 (float_of_nat 1) (float_of_nat 10)\<rparr>
      (problem_of_sizes [5] [3] [7])
     = Inr (Fin False 10066330 (- 25))
   \<and> CUGranularity_eval ceil_float (\<lambda>x. Fin False 8388608 (- 23))
      \<lparr>mt0_scale = fdiv binary32 (float_of_nat 1) (float_of_nat 2),
       mt1_scale = fdiv binary32 (float_of_nat 1) (float_of_nat 3),
       devSolScale = fdiv binary32 (float_of_nat 1) (float_of_nat 10)\<rparr>
      (problem_of_sizes [5] [3] [7])
     \<noteq> WavesPerSIMD_eval ceil_float
      \<lparr>mt0_scale = fdiv binary32 (float_of_nat 1) (float_of_nat 2),
       mt1_scale = fdiv binary32 (float_of_nat 1) (float_of_nat 3),
       devSolScale = fdiv binary32 (float_of_nat 1) (float_of_nat 10)\<rparr>
      (problem_of_sizes [5] [3] [7])
   \<and> exactly_float
        (fmul binary64
           (fceil binary64 (cvt binary64
              (fmul binary32 (float_of_size 5) (fdiv binary32 (float_of_nat 1) (float_of_nat 2)))))
           (fceil binary64 (cvt binary64
              (fmul binary32 (float_of_size 3) (fdiv binary32 (float_of_nat 1) (float_of_nat 3))))))
   \<and> WavesPerSIMD_eval ceil_double
      \<lparr>mt0_scale = fdiv binary32 (float_of_nat 1) (float_of_nat 2),
       mt1_scale = fdiv binary32 (float_of_nat 1) (float_of_nat 3),
       devSolScale = fdiv binary32 (float_of_nat 1) (float_of_nat 10)\<rparr>
      (problem_of_sizes [5] [3] [7])
     = Inr (Fin False 10066330 (- 25))
   \<and> CUGranularity_eval ceil_double (\<lambda>x. Fin False 8388608 (- 23))
      \<lparr>mt0_scale = fdiv binary32 (float_of_nat 1) (float_of_nat 2),
       mt1_scale = fdiv binary32 (float_of_nat 1) (float_of_nat 3),
       devSolScale = fdiv binary32 (float_of_nat 1) (float_of_nat 10)\<rparr>
      (problem_of_sizes [5] [3] [7])
     \<noteq> WavesPerSIMD_eval ceil_double
      \<lparr>mt0_scale = fdiv binary32 (float_of_nat 1) (float_of_nat 2),
       mt1_scale = fdiv binary32 (float_of_nat 1) (float_of_nat 3),
       devSolScale = fdiv binary32 (float_of_nat 1) (float_of_nat 10)\<rparr>
      (problem_of_sizes [5] [3] [7])"
proof -
  have w: "WavesPerSIMD_eval ceil_float
      \<lparr>mt0_scale = fdiv binary32 (float_of_nat 1) (float_of_nat 2),
       mt1_scale = fdiv binary32 (float_of_nat 1) (float_of_nat 3),
       devSolScale = fdiv binary32 (float_of_nat 1) (float_of_nat 10)\<rparr>
      (problem_of_sizes [5] [3] [7])
     = Inr (Fin False 10066330 (- 25))"
    by (simp add: model_eval) (simp_all add: float_eval)
  have w': "WavesPerSIMD_eval ceil_double
      \<lparr>mt0_scale = fdiv binary32 (float_of_nat 1) (float_of_nat 2),
       mt1_scale = fdiv binary32 (float_of_nat 1) (float_of_nat 3),
       devSolScale = fdiv binary32 (float_of_nat 1) (float_of_nat 10)\<rparr>
      (problem_of_sizes [5] [3] [7])
     = Inr (Fin False 10066330 (- 25))"
    by (simp add: model_eval) (simp_all add: float_eval)
  have x: "exactly_float
        (fmul binary64
           (fceil binary64 (cvt binary64
              (fmul binary32 (float_of_size 5) (fdiv binary32 (float_of_nat 1) (float_of_nat 2)))))
           (fceil binary64 (cvt binary64
              (fmul binary32 (float_of_size 3) (fdiv binary32 (float_of_nat 1) (float_of_nat 3))))))"
    by (simp add: model_eval exactly_float_def) (simp_all add: float_eval)
  have d: "is_format binary32 (fdiv binary32 (float_of_nat 1) (float_of_nat 10))"
    by (simp add: float_eval canonical_def)
  have a: "freeSizeA (problem_of_sizes [5] [3] [7]) 0 = Inr 5"
    "freeSizeB (problem_of_sizes [5] [3] [7]) 0 = Inr 3"
    by (simp_all add: problem_eval)
  from WavesPerSIMD_formula
    [of "problem_of_sizes [5] [3] [7]" 5 3
        "\<lparr>mt0_scale = fdiv binary32 (float_of_nat 1) (float_of_nat 2),
          mt1_scale = fdiv binary32 (float_of_nat 1) (float_of_nat 3),
          devSolScale = fdiv binary32 (float_of_nat 1) (float_of_nat 10)\<rparr>"
        ceil_float "[7]" "Fin False 10066330 (- 25)" "\<lambda>x. Fin False 8388608 (- 23)"
        "Fin False 10066330 (- 25)"]
    w w' x d a
  show ?thesis by simp
qed

text \<open>
  With the \<^verbatim>\<open>double\<close> overload and a product that is no \<^verbatim>\<open>float\<close> the last part fails, also
  for a \<open>computeGranularity\<close> within the contract, since \<open>CUGranularity\<close> applies it to a
  count that is rounded differently. At sizes 4097 and 4097, tile scales 1 and
  \<open>devSolScale = 3 * 2 ^ - 26\<close>, \<open>WavesPerSIMD\<close> returns \<open>12589056 * 2 ^ - 24\<close> and
  \<open>CUGranularity\<close> passes \<open>12589057 * 2 ^ - 24\<close> on. The step function that is \<open>1 / 2\<close>
  below \<open>12589057 * 2 ^ - 24\<close> and \<open>12589056 * 2 ^ - 24\<close> from there on is monotonic with
  values in \<open>(0, 1]\<close> and the identity on neither count, and the two features return the
  same value.
\<close>

theorem WavesPerSIMD_ceil_double_counterexample:
  "GranularityFn_contract
     (\<lambda>x. if float_less x (Fin False 12589057 (- 24))
          then Fin False 8388608 (- 24) else Fin False 12589056 (- 24))
   \<and> WavesPerSIMD_eval ceil_double
      \<lparr>mt0_scale = float_of_nat 1, mt1_scale = float_of_nat 1,
       devSolScale = fdiv binary32 (float_of_nat 3) (float_of_nat 67108864)\<rparr>
      (problem_of_sizes [4097] [4097] [])
    = Inr (Fin False 12589056 (- 24))
   \<and> (\<lambda>x. if float_less x (Fin False 12589057 (- 24))
          then Fin False 8388608 (- 24) else Fin False 12589056 (- 24))
        (Fin False 12589056 (- 24)) \<noteq> Fin False 12589056 (- 24)
   \<and> tilesPerCu ceil_double
        (fmul binary32 (float_of_size 4097) (float_of_nat 1))
        (fmul binary32 (float_of_size 4097) (float_of_nat 1))
        (fdiv binary32 (float_of_nat 3) (float_of_nat 67108864))
      = Fin False 12589057 (- 24)
   \<and> (\<lambda>x. if float_less x (Fin False 12589057 (- 24))
          then Fin False 8388608 (- 24) else Fin False 12589056 (- 24))
        (Fin False 12589057 (- 24)) \<noteq> Fin False 12589057 (- 24)
   \<and> CUGranularity_eval ceil_double
      (\<lambda>x. if float_less x (Fin False 12589057 (- 24))
           then Fin False 8388608 (- 24) else Fin False 12589056 (- 24))
      \<lparr>mt0_scale = float_of_nat 1, mt1_scale = float_of_nat 1,
       devSolScale = fdiv binary32 (float_of_nat 3) (float_of_nat 67108864)\<rparr>
      (problem_of_sizes [4097] [4097] [])
    = WavesPerSIMD_eval ceil_double
      \<lparr>mt0_scale = float_of_nat 1, mt1_scale = float_of_nat 1,
       devSolScale = fdiv binary32 (float_of_nat 3) (float_of_nat 67108864)\<rparr>
      (problem_of_sizes [4097] [4097] [])"
  using step_GranularityFn_contract
  by (simp add: model_eval float_less_def) (simp_all add: float_eval)

section \<open>A free size of zero\<close>

text \<open>
  Claim C5, as the code has it. Let the scale factors be in the declared domain. If
  \<open>freeSizeA(0)\<close> is 0, the tile count \<open>freeSizeA(0) * value\<close> is 0 and
  \<open>Tile0Granularity\<close> returns \<open>computeGranularity 0\<close>; likewise \<open>Tile1Granularity\<close> for
  \<open>freeSizeB(0)\<close>. If one of the two sizes is 0 and the tile count of the other
  dimension is finite, \<open>CUGranularity\<close> returns \<open>computeGranularity 0\<close> and
  \<open>WavesPerSIMD\<close> returns 0, for either overload of \<^verbatim>\<open>ceil\<close>. No evaluation fails, and
  none divides.
\<close>

theorem zero_size_gives_zero_tiles:
  "(freeSizeA p 0 = Inr 0 \<and> nonneg_float x \<longrightarrow>
      fmul binary32 (float_of_size 0) x = float_of_size 0
      \<and> Tile0Granularity_eval G x p = Inr (G (float_of_size 0)))
   \<and> (freeSizeB p 0 = Inr 0 \<and> nonneg_float x \<longrightarrow>
      Tile1Granularity_eval G x p = Inr (G (float_of_size 0)))
   \<and> (scales_in_domain v \<and> freeSizeA p 0 = Inr 0 \<and> freeSizeB p 0 = Inr b
        \<and> is_finite (fmul binary32 (float_of_size b) (mt1_scale v)) \<longrightarrow>
      CUGranularity_eval ovl G v p = Inr (G (float_of_size 0))
      \<and> WavesPerSIMD_eval ovl v p = Inr (float_of_size 0))
   \<and> (scales_in_domain v \<and> freeSizeA p 0 = Inr a \<and> freeSizeB p 0 = Inr 0
        \<and> is_finite (fmul binary32 (float_of_size a) (mt0_scale v)) \<longrightarrow>
      CUGranularity_eval ovl G v p = Inr (G (float_of_size 0))
      \<and> WavesPerSIMD_eval ovl v p = Inr (float_of_size 0))"
proof (intro conjI impI)
  assume "freeSizeA p 0 = Inr 0 \<and> nonneg_float x"
  then show "fmul binary32 (float_of_size 0) x = float_of_size 0"
    and "Tile0Granularity_eval G x p = Inr (G (float_of_size 0))"
    by (simp_all add: Tile0Granularity_eval_def fmul_size_0 nonneg_float_def)
next
  assume "freeSizeB p 0 = Inr 0 \<and> nonneg_float x"
  then show "Tile1Granularity_eval G x p = Inr (G (float_of_size 0))"
    by (simp add: Tile1Granularity_eval_def fmul_size_0 nonneg_float_def)
next
  assume h: "scales_in_domain v \<and> freeSizeA p 0 = Inr 0 \<and> freeSizeB p 0 = Inr b
        \<and> is_finite (fmul binary32 (float_of_size b) (mt1_scale v))"
  then have m: "fmul binary32 (Fin False 0 (- 149)) (mt0_scale v) = Fin False 0 (- 149)"
    using fmul_size_0 [of "mt0_scale v"]
    by (simp add: scales_in_domain_def nonneg_float_def float_of_size_0)
  from h have n: "is_format binary32 (fmul binary32 (float_of_size b) (mt1_scale v))"
    "is_finite (fmul binary32 (float_of_size b) (mt1_scale v))"
    "\<not> sign (fmul binary32 (float_of_size b) (mt1_scale v))"
    using numTiles_nonneg [of "mt1_scale v" b] by (simp_all add: scales_in_domain_def)
  from h have d: "is_format binary32 (devSolScale v)" "is_finite (devSolScale v)"
    "\<not> sign (devSolScale v)"
    by (simp_all add: scales_in_domain_def nonneg_float_def)
  from h show "CUGranularity_eval ovl G v p = Inr (G (float_of_size 0))"
    by (simp add: CUGranularity_eval_def m tilesPerCu_zero(1) [OF n d] float_of_size_0)
  from h d show "WavesPerSIMD_eval ovl v p = Inr (float_of_size 0)"
    by (simp add: WavesPerSIMD_eval_def m totalTiles_zero(1) [OF n] float_of_size_0
        fmul_zero_left)
next
  assume h: "scales_in_domain v \<and> freeSizeA p 0 = Inr a \<and> freeSizeB p 0 = Inr 0
        \<and> is_finite (fmul binary32 (float_of_size a) (mt0_scale v))"
  then have m: "fmul binary32 (Fin False 0 (- 149)) (mt1_scale v) = Fin False 0 (- 149)"
    using fmul_size_0 [of "mt1_scale v"]
    by (simp add: scales_in_domain_def nonneg_float_def float_of_size_0)
  from h have n: "is_format binary32 (fmul binary32 (float_of_size a) (mt0_scale v))"
    "is_finite (fmul binary32 (float_of_size a) (mt0_scale v))"
    "\<not> sign (fmul binary32 (float_of_size a) (mt0_scale v))"
    using numTiles_nonneg [of "mt0_scale v" a] by (simp_all add: scales_in_domain_def)
  from h have d: "is_format binary32 (devSolScale v)" "is_finite (devSolScale v)"
    "\<not> sign (devSolScale v)"
    by (simp_all add: scales_in_domain_def nonneg_float_def)
  from h show "CUGranularity_eval ovl G v p = Inr (G (float_of_size 0))"
    by (simp add: CUGranularity_eval_def m tilesPerCu_zero(2) [OF n d] float_of_size_0)
  from h d show "WavesPerSIMD_eval ovl v p = Inr (float_of_size 0)"
    by (simp add: WavesPerSIMD_eval_def m totalTiles_zero(2) [OF n] float_of_size_0
        fmul_zero_left)
qed

theorem zero_size_witness:
  "Tile0Granularity_eval (\<lambda>x. x) (fdiv binary32 (float_of_nat 1) (float_of_nat 64))
      (problem_of_sizes [0] [40] [])
     = Inr (Fin False 0 (- 149))
   \<and> CUGranularity_eval ceil_double (\<lambda>x. x)
      \<lparr>mt0_scale = fdiv binary32 (float_of_nat 1) (float_of_nat 64),
       mt1_scale = fdiv binary32 (float_of_nat 1) (float_of_nat 64),
       devSolScale = fdiv binary32 (float_of_nat 1) (float_of_nat 10)\<rparr>
      (problem_of_sizes [0] [40] [])
     = Inr (Fin False 0 (- 149))
   \<and> WavesPerSIMD_eval ceil_float
      \<lparr>mt0_scale = fdiv binary32 (float_of_nat 1) (float_of_nat 64),
       mt1_scale = fdiv binary32 (float_of_nat 1) (float_of_nat 64),
       devSolScale = fdiv binary32 (float_of_nat 1) (float_of_nat 10)\<rparr>
      (problem_of_sizes [40] [0] [])
     = Inr (Fin False 0 (- 149))"
proof -
  have x: "nonneg_float (fdiv binary32 (float_of_nat 1) (float_of_nat 64))"
    by (simp add: nonneg_float_def float_eval canonical_def)
  have v: "scales_in_domain
      \<lparr>mt0_scale = fdiv binary32 (float_of_nat 1) (float_of_nat 64),
       mt1_scale = fdiv binary32 (float_of_nat 1) (float_of_nat 64),
       devSolScale = fdiv binary32 (float_of_nat 1) (float_of_nat 10)\<rparr>"
    by (simp add: scales_in_domain_def nonneg_float_def float_eval canonical_def)
  have n: "is_finite (fmul binary32 (float_of_size 40)
      (fdiv binary32 (float_of_nat 1) (float_of_nat 64)))"
    by (simp add: float_of_size_def) (simp add: float_eval)
  have z: "float_of_size 0 = Fin False 0 (- 149)"
    by (rule float_of_size_0)
  from zero_size_gives_zero_tiles
      [of "problem_of_sizes [0] [40] []"
          "fdiv binary32 (float_of_nat 1) (float_of_nat 64)" "\<lambda>x. x"
          "\<lparr>mt0_scale = fdiv binary32 (float_of_nat 1) (float_of_nat 64),
            mt1_scale = fdiv binary32 (float_of_nat 1) (float_of_nat 64),
            devSolScale = fdiv binary32 (float_of_nat 1) (float_of_nat 10)\<rparr>"
          40 ceil_double 40]
    zero_size_gives_zero_tiles
      [of "problem_of_sizes [40] [0] []"
          "fdiv binary32 (float_of_nat 1) (float_of_nat 64)" "\<lambda>x. x"
          "\<lparr>mt0_scale = fdiv binary32 (float_of_nat 1) (float_of_nat 64),
            mt1_scale = fdiv binary32 (float_of_nat 1) (float_of_nat 64),
            devSolScale = fdiv binary32 (float_of_nat 1) (float_of_nat 10)\<rparr>"
          40 ceil_float 40]
    x v n
  show ?thesis
    unfolding z by (simp add: problem_eval)
qed

text \<open>
  Where the tile count of the other dimension overflows, the product of zero and
  infinity is NaN. With \<open>freeSizeA(0) = 0\<close>, \<open>freeSizeB(0) = 2\<close> and the finite scale
  \<open>mt1_scale = 2 ^ 127\<close>, \<open>CUGranularity\<close> passes NaN to \<open>computeGranularity\<close>, not 0.
\<close>

theorem zero_size_overflow_counterexample:
  "scales_in_domain
      \<lparr>mt0_scale = float_of_nat 1, mt1_scale = Fin False 8388608 104,
       devSolScale = float_of_nat 1\<rparr>
   \<and> CUGranularity_eval ceil_float (\<lambda>x. x)
      \<lparr>mt0_scale = float_of_nat 1, mt1_scale = Fin False 8388608 104,
       devSolScale = float_of_nat 1\<rparr>
      (problem_of_sizes [0] [2] [])
     = Inr NaN
   \<and> CUGranularity_eval ceil_double (\<lambda>x. x)
      \<lparr>mt0_scale = float_of_nat 1, mt1_scale = Fin False 8388608 104,
       devSolScale = float_of_nat 1\<rparr>
      (problem_of_sizes [0] [2] [])
     = Inr NaN
   \<and> CUGranularity_eval ceil_float (\<lambda>x. x)
      \<lparr>mt0_scale = float_of_nat 1, mt1_scale = Fin False 8388608 104,
       devSolScale = float_of_nat 1\<rparr>
      (problem_of_sizes [0] [2] [])
     \<noteq> Inr ((\<lambda>x. x) (float_of_size 0))"
  by (simp add: model_eval scales_in_domain_def nonneg_float_def)
    (simp_all add: float_eval canonical_def)

end
